theory Spec2Isabelle
  imports Main "HOL-Library.Sublist"
begin

section \<open>Strings and the JavaScript string operations used by server.ts\<close>

text \<open>
  JavaScript strings are modelled as \<^typ>\<open>string\<close>. Every operation of the program that
  inspects characters compares them with ASCII characters only (\<open>=\<close>, \<open>-\<close>, \<open>&\<close>, \<open><\<close>,
  \<open>>\<close>, the two quotes), so the unit of a string (UTF-16 code unit or byte) does not matter.
\<close>

text \<open>\<open>s.startsWith(p)\<close>\<close>

definition startsWith :: "string \<Rightarrow> string \<Rightarrow> bool" where
  "startsWith s p \<longleftrightarrow> take (length p) s = p"

text \<open>\<open>s.substring(n)\<close>\<close>

definition substring :: "string \<Rightarrow> nat \<Rightarrow> string" where
  "substring s n = drop n s"

text \<open>
  \<open>s.split(c)\<close> for a one-character separator: all the pieces, in order; the empty string
  splits into one empty piece.
\<close>

fun js_split :: "char \<Rightarrow> string \<Rightarrow> string list" where
  "js_split c [] = [[]]"
| "js_split c (x # xs) =
     (if x = c then [] # js_split c xs
      else (case js_split c xs of
              [] \<Rightarrow> [[x]]
            | p # ps \<Rightarrow> (x # p) # ps))"

text \<open>\<open>xs.join(sep)\<close>\<close>

fun join :: "string \<Rightarrow> string list \<Rightarrow> string" where
  "join sep [] = []"
| "join sep [x] = x"
| "join sep (x # y # ys) = x @ sep @ join sep (y # ys)"

text \<open>\<open>s.replace(/c/g, r)\<close> for a one-character pattern \<open>c\<close>.\<close>

fun replaceAll :: "char \<Rightarrow> string \<Rightarrow> string \<Rightarrow> string" where
  "replaceAll c r [] = []"
| "replaceAll c r (x # xs) = (if x = c then r @ replaceAll c r xs else x # replaceAll c r xs)"

text \<open>\<open>x || d\<close> on a string: the empty string is falsy.\<close>

definition orElse :: "string \<Rightarrow> string \<Rightarrow> string" where
  "orElse x d = (if x = [] then d else x)"

text \<open>\<open>x || d\<close> on an optional string property: \<open>undefined\<close> and the empty string are falsy.\<close>

definition orElseOpt :: "string option \<Rightarrow> string \<Rightarrow> string" where
  "orElseOpt x d = (case x of None \<Rightarrow> d | Some v \<Rightarrow> orElse v d)"

section \<open>Data model\<close>

text \<open>\<open>interface Job\<close>\<close>

record Job =
  position :: string
  company :: string
  companyLogo :: "string option"
  location :: string
  date :: string
  agoTime :: string
  salary :: "string option"
  jobUrl :: string

text \<open>
  \<open>interface QueryOptions\<close>. The enumerated fields are string-literal unions in TypeScript and
  plain strings at run time; the parser below is what restricts their values.
\<close>

record QueryOptions =
  keyword :: string
  location :: string
  dateSincePosted :: string
  limit :: string
  jobType :: string
  remoteFilter :: string
  salary :: string
  experienceLevel :: string
  sortBy :: string

text \<open>\<open>Partial<QueryOptions>\<close>: an object holding some of the properties, by name.\<close>

type_synonym PartialQueryOptions = "string \<rightharpoonup> string"

text \<open>
  The value a collaborator call resolves with, typed \<open>Job[] | unknown\<close>: an array of jobs
  or anything else.
\<close>

datatype Unknown =
    JsUndefined
  | JsNull
  | JsBoolean bool
  | JsNumber int
  | JsString string
  | JsObject "(string \<times> string) list"

datatype Response = JobArray "Job list" | NotArray Unknown

text \<open>
  The value a collaborator call rejects with, typed \<open>any\<close>. The \<open>.catch\<close> callback reads
  \<open>error.message\<close>, \<open>error.response\<close> and \<open>error.response.status\<close>. Reading a property
  of \<open>null\<close> or of \<open>undefined\<close> throws a \<open>TypeError\<close>; any other value reads as an
  object, where a missing property reads as \<open>undefined\<close>. So a rejection value is \<open>null\<close>,
  \<open>undefined\<close>, or an object with these optional properties.
\<close>

record ErrorResponse =
  status :: "int option"

record FetchError =
  message :: "string option"
  response :: "ErrorResponse option"

datatype Rejection = NullValue | UndefinedValue | ErrorObject FetchError

datatype Settlement = Resolved Response | Rejected Rejection

text \<open>How the promise returned by \<open>open(url)\<close> settles.\<close>

datatype OpenSettlement = OpenResolved | OpenRejected string

text \<open>What the process does that can be observed from outside.\<close>

datatype event =
    ConsoleLog string
  | ConsoleWarn string
  | ConsoleWarnResponse string Unknown
  | ConsoleErrorFetch string Rejection
  | ConsoleErrorOpen string string
  | LinkedInQuery QueryOptions
  | OpenBrowser string
  | ResSend string
  | UnhandledRejection

text \<open>A function either returns or ends the process through \<open>process.exit(code)\<close>.\<close>

datatype 'a completion = Returned 'a | Exited int

text \<open>
  A promise callback either returns or throws. The one exception a callback of this program
  can throw is the \<open>TypeError\<close> of a property read on \<open>null\<close> or \<open>undefined\<close>.
\<close>

datatype ending = Returns | ThrowsTypeError

text \<open>
  What the runtime does with a rejected promise that nothing handles, its mode
  \<open>--unhandled-rejections\<close>: \<open>throw\<close> (the default since Node 15) raises an uncaught
  exception, which ends the process with exit status 1; \<open>warn\<close> (the default before)
  prints a warning and goes on.
\<close>

datatype UnhandledRejections = Throw | Warn

section \<open>escapeHtml\<close>

definition escapeHtml :: "string \<Rightarrow> string" where
  \<open>escapeHtml unsafe =
     replaceAll (CHR 0x27) ''&#039;''
       (replaceAll (CHR 0x22) ''&quot;''
         (replaceAll CHR ''>'' ''&gt;''
           (replaceAll CHR ''<'' ''&lt;''
             (replaceAll CHR ''&'' ''&amp;'' unsafe))))\<close>

section \<open>Command-line arguments\<close>

text \<open>The text \<open>showHelpAndExit\<close> prints.\<close>

definition usageText :: string where
  \<open>usageText =
     ''\<newline>'' @
     ''Usage: npm start [--keyword="<keywords>"] [--location="<location>"] [--dateSincePosted="<timeframe>"] [--limit="<number>"] [--jobType="<type>"] [--remoteFilter="<filter>"] [--salary="<salary_range>"] [--experienceLevel="<level>"] [--sortBy="<sort_order>"]\<newline>'' @
     ''\<newline>'' @
     ''Note: Job search is performed once when the server starts based on these parameters.\<newline>'' @
     ''      The browser will open automatically after the initial search.\<newline>'' @
     ''\<newline>'' @
     ''Options:\<newline>'' @
     ''  --keyword          : Search terms (e.g., "React, Node.js"). Default: "Vue.js, Angular"\<newline>'' @
     ''  --location         : Job location (e.g., "London", "Remote"). Default: "" (global)\<newline>'' @
     ''  --dateSincePosted  : Filter by post date. Valid values: "24hr", "past Week", "past Month", "". Default: "past Week"\<newline>'' @
     ''  --limit            : Number of jobs returned. (e.g., "10", "100"). Default: "100"\<newline>'' @
     ''  --jobType          : Type of position. Valid values: "full time", "part time", "contract", "temporary", "volunteer", "internship", "". Default: ""\<newline>'' @
     ''  --remoteFilter     : Filter telecommuting. Valid values: "on site", "remote", "hybrid", "". Default: ""\<newline>'' @
     ''  --salary           : Minimum salary. Valid values: "40000", "60000", "80000", "100000", "120000", "". Default: ""\<newline>'' @
     ''  --experienceLevel  : Required experience. Valid values: "internship", "entry level", "associate", "senior", "director", "executive", "". Default: ""\<newline>'' @
     ''  --sortBy           : Result ordering. Valid values: "recent", "relevant". Default: "recent"\<newline>'' @
     ''  --help             : Show this help message and exit.\<newline>'' @
     ''\<newline>'' @
     ''Example:\<newline>'' @
     ''  npm start -- --keyword="TypeScript" --location="Remote" --dateSincePosted="24hr" --limit="50"\<newline>'' @
     ''    ''\<close>

text \<open>\<open>showHelpAndExit\<close>: one \<open>console.log\<close>, then \<open>process.exit(0)\<close>.\<close>

definition showHelpAndExit :: "event list \<times> int" where
  "showHelpAndExit = ([ConsoleLog usageText], 0)"

text \<open>The arrays of valid values declared in the branches of the \<open>switch\<close>.\<close>

definition validDateSincePosted :: "string list" where
  "validDateSincePosted = [''24hr'', ''past Week'', ''past Month'', '''']"

definition validJobTypes :: "string list" where
  "validJobTypes =
     [''full time'', ''part time'', ''contract'', ''temporary'', ''volunteer'', ''internship'', '''']"

definition validRemoteFilters :: "string list" where
  "validRemoteFilters = [''on site'', ''remote'', ''hybrid'', '''']"

definition validSalaries :: "string list" where
  "validSalaries = [''40000'', ''60000'', ''80000'', ''100000'', ''120000'', '''']"

definition validExperienceLevels :: "string list" where
  "validExperienceLevels =
     [''internship'', ''entry level'', ''associate'', ''senior'', ''director'', ''executive'', '''']"

definition validSortBys :: "string list" where
  "validSortBys = [''recent'', ''relevant'']"

text \<open>The four warnings of \<open>parseCommandLineArgs\<close>.\<close>

definition invalidValueWarning :: "string \<Rightarrow> string \<Rightarrow> string list \<Rightarrow> string" where
  \<open>invalidValueWarning key value valid =
     ''Invalid value for --'' @ key @ '': "'' @ value @ ''". Must be one of '' @
     join '', '' (map (\<lambda>v. ''"'' @ v @ ''"'') valid) @ ''. Ignoring.''\<close>

definition unknownArgumentWarning :: "string \<Rightarrow> string" where
  \<open>unknownArgumentWarning key = ''Unknown command-line argument: --'' @ key @ ''. Ignoring.''\<close>

definition invalidFormatWarning :: "string \<Rightarrow> string" where
  \<open>invalidFormatWarning arg =
     ''Invalid command-line argument format: "'' @ arg @ ''". Expected --key=value. Ignoring.''\<close>

definition unrecognizedArgumentWarning :: "string \<Rightarrow> string" where
  \<open>unrecognizedArgumentWarning arg =
     ''Unrecognized command-line argument: "'' @ arg @
     ''". Expected arguments to start with \'--\'. Ignoring.''\<close>

text \<open>
  A branch of the \<open>switch\<close> for an enumerated field: the value is stored when the array of
  valid values includes it, and a warning is printed otherwise.
\<close>

definition enumeratedCase ::
  "string list \<Rightarrow> string \<Rightarrow> string \<Rightarrow> PartialQueryOptions \<Rightarrow> PartialQueryOptions \<times> event list"
where
  "enumeratedCase valid key value args =
     (if value \<in> set valid then (args(key \<mapsto> value), [])
      else (args, [ConsoleWarn (invalidValueWarning key value valid)]))"

text \<open>The \<open>switch (key)\<close> statement.\<close>

definition switchKey ::
  "string \<Rightarrow> string \<Rightarrow> PartialQueryOptions \<Rightarrow> PartialQueryOptions \<times> event list"
where
  "switchKey key value args =
     (if key = ''keyword'' \<or> key = ''location'' \<or> key = ''limit'' then (args(key \<mapsto> value), [])
      else if key = ''dateSincePosted'' then enumeratedCase validDateSincePosted key value args
      else if key = ''jobType'' then enumeratedCase validJobTypes key value args
      else if key = ''remoteFilter'' then enumeratedCase validRemoteFilters key value args
      else if key = ''salary'' then enumeratedCase validSalaries key value args
      else if key = ''experienceLevel'' then enumeratedCase validExperienceLevels key value args
      else if key = ''sortBy'' then enumeratedCase validSortBys key value args
      else (args, [ConsoleWarn (unknownArgumentWarning key)]))"

text \<open>
  The body of the loop for an argument that is not a help flag. The destructuring
  \<open>const [key, value] = arg.substring(2).split('=')\<close> takes the first two pieces of the split;
  \<open>value\<close> is \<open>undefined\<close> when there is only one piece.
\<close>

definition parseArgument ::
  "string \<Rightarrow> PartialQueryOptions \<Rightarrow> PartialQueryOptions \<times> event list"
where
  "parseArgument arg args =
     (if startsWith arg ''--'' then
        (case js_split CHR ''='' (substring arg 2) of
           key # value # _ \<Rightarrow>
             (if key \<noteq> [] then switchKey key value args
              else (args, [ConsoleWarn (invalidFormatWarning arg)]))
         | _ \<Rightarrow> (args, [ConsoleWarn (invalidFormatWarning arg)]))
      else (args, [ConsoleWarn (unrecognizedArgumentWarning arg)]))"

text \<open>
  The \<open>for\<close> loop of \<open>parseCommandLineArgs\<close> over the arguments from index 2 on, with the
  object \<open>args\<close> built so far and the console output so far.
\<close>

fun parseLoop ::
  "string list \<Rightarrow> PartialQueryOptions \<Rightarrow> event list
     \<Rightarrow> event list \<times> PartialQueryOptions completion"
where
  "parseLoop [] args out = (out, Returned args)"
| "parseLoop (arg # rest) args out =
     (if arg = ''--help'' \<or> arg = ''-h''
      then (out @ fst showHelpAndExit, Exited (snd showHelpAndExit))
      else (case parseArgument arg args of
              (args', warnings) \<Rightarrow> parseLoop rest args' (out @ warnings)))"

text \<open>\<open>parseCommandLineArgs\<close>, with \<open>process.argv\<close> as a parameter.\<close>

definition parseCommandLineArgs ::
  "string list \<Rightarrow> event list \<times> PartialQueryOptions completion"
where
  "parseCommandLineArgs argv = parseLoop (drop 2 argv) Map.empty []"

definition hardcodedDefaultOptions :: QueryOptions where
  "hardcodedDefaultOptions =
     \<lparr>keyword = ''Vue.js, Angular'',
      location = ''london'',
      dateSincePosted = ''past Week'',
      limit = ''100'',
      jobType = '''',
      remoteFilter = '''',
      salary = '''',
      experienceLevel = '''',
      sortBy = ''recent''\<rparr>"

text \<open>
  The object spread \<open>{ ...defaults, ...cmdLineArgs }\<close>: a property of \<open>cmdLineArgs\<close>
  replaces the default of the same name.
\<close>

definition spread :: "QueryOptions \<Rightarrow> PartialQueryOptions \<Rightarrow> QueryOptions" where
  "spread defaults cmdLineArgs =
     \<lparr>keyword = (case cmdLineArgs ''keyword'' of Some v \<Rightarrow> v | None \<Rightarrow> keyword defaults),
      location = (case cmdLineArgs ''location'' of Some v \<Rightarrow> v | None \<Rightarrow> location defaults),
      dateSincePosted =
        (case cmdLineArgs ''dateSincePosted'' of Some v \<Rightarrow> v | None \<Rightarrow> dateSincePosted defaults),
      limit = (case cmdLineArgs ''limit'' of Some v \<Rightarrow> v | None \<Rightarrow> limit defaults),
      jobType = (case cmdLineArgs ''jobType'' of Some v \<Rightarrow> v | None \<Rightarrow> jobType defaults),
      remoteFilter =
        (case cmdLineArgs ''remoteFilter'' of Some v \<Rightarrow> v | None \<Rightarrow> remoteFilter defaults),
      salary = (case cmdLineArgs ''salary'' of Some v \<Rightarrow> v | None \<Rightarrow> salary defaults),
      experienceLevel =
        (case cmdLineArgs ''experienceLevel'' of Some v \<Rightarrow> v | None \<Rightarrow> experienceLevel defaults),
      sortBy = (case cmdLineArgs ''sortBy'' of Some v \<Rightarrow> v | None \<Rightarrow> sortBy defaults)\<rparr>"

definition getEffectiveQueryOptions :: "string list \<Rightarrow> event list \<times> QueryOptions completion" where
  "getEffectiveQueryOptions argv =
     (case parseCommandLineArgs argv of
        (out, Exited code) \<Rightarrow> (out, Exited code)
      | (out, Returned cmdLineArgs) \<Rightarrow> (out, Returned (spread hardcodedDefaultOptions cmdLineArgs)))"

section \<open>The page\<close>

text \<open>
  \<open>String(n)\<close> for a natural number, as the template literal
  \<open>`Fetched ${cachedJobs.length} jobs.`\<close> needs it.
\<close>

fun toString :: "nat \<Rightarrow> string" where
  "toString n =
     (if n < 10 then [char_of (48 + n)] else toString (n div 10) @ [char_of (48 + n mod 10)])"

text \<open>The row the \<open>map\<close> callback of the handler builds for one job.\<close>

definition renderJobRow :: "Job \<Rightarrow> string" where
  \<open>renderJobRow job =
     ''\<newline>'' @
     ''                                        <tr>\<newline>'' @
     ''                                            <td>'' @
     escapeHtml (orElse (position job) ''N/A'') @
     ''</td>\<newline>'' @
     ''                                            <td>'' @
     escapeHtml (orElse (company job) ''N/A'') @
     ''</td>\<newline>'' @
     ''                                            <td>'' @
     escapeHtml (orElse (Job.location job) ''N/A'') @
     ''</td>\<newline>'' @
     ''                                            <td>'' @
     escapeHtml (orElse (date job) ''N/A'') @
     '' ('' @
     escapeHtml (orElse (agoTime job) ''N/A'') @
     '')</td>\<newline>'' @
     ''                                            <td>'' @
     escapeHtml (orElseOpt (Job.salary job) ''N/A'') @
     ''</td>\<newline>'' @
     ''                                            <td><a href="'' @
     escapeHtml (orElse (jobUrl job) ''#'') @
     ''" target="_blank" class="job-link rounded-md p-1 hover:bg-indigo-50">View Job</a></td>\<newline>'' @
     ''                                        </tr>\<newline>'' @
     ''                                    ''\<close>

text \<open>
  The banner \<open>${cachedErrorMessage ? `...` : ''}\<close>. The message is interpolated as it is,
  not through \<open>escapeHtml\<close>.
\<close>

definition errorBanner :: "string \<Rightarrow> string" where
  \<open>errorBanner cachedErrorMessage =
     (if cachedErrorMessage \<noteq> [] then
        ''<div class="bg-red-100 border border-red-400 text-red-700 px-4 py-3 rounded-md relative mb-6" role="alert">\<newline>'' @
        ''                            <strong class="font-bold">Error!</strong>\<newline>'' @
        ''                            <span class="block sm:inline">'' @
        cachedErrorMessage @
        ''</span>\<newline>'' @
        ''                        </div>''
      else '''')\<close>

text \<open>
  The template literal passed to \<open>res.send\<close>, in three parts: the text before the rows of
  the table, the rows, and the text after them.
\<close>

definition pagePrefix :: "QueryOptions \<Rightarrow> string \<Rightarrow> string" where
  \<open>pagePrefix queryOptionsForForm cachedErrorMessage =
     ''\<newline>'' @
     ''        <!DOCTYPE html>\<newline>'' @
     ''        <html lang="en">\<newline>'' @
     ''        <head>\<newline>'' @
     ''            <meta charset="UTF-8">\<newline>'' @
     ''            <meta name="viewport" content="width=device-width, initial-scale=1.0">\<newline>'' @
     ''            <title>LinkedIn Job Search (TypeScript)</title>\<newline>'' @
     ''            <script src="https://cdn.tailwindcss.com"></script>\<newline>'' @
     ''            <link href="https://fonts.googleapis.com/css2?family=Inter:wght@300;400;500;600;700&display=swap" rel="stylesheet">\<newline>'' @
     ''            <style>\<newline>'' @
     ''                body {\<newline>'' @
     ''                    font-family: \'Inter\', sans-serif;\<newline>'' @
     ''                    background-color: #f3f4f6;\<newline>'' @
     ''                    color: #333;\<newline>'' @
     ''                }\<newline>'' @
     ''                .container {\<newline>'' @
     ''                    max-width: 1200px;\<newline>'' @
     ''                    margin: 2rem auto;\<newline>'' @
     ''                    padding: 1.5rem;\<newline>'' @
     ''                    background-color: #ffffff;\<newline>'' @
     ''                    border-radius: 0.75rem;\<newline>'' @
     ''                    box-shadow: 0 4px 6px rgba(0, 0, 0, 0.1);\<newline>'' @
     ''                }\<newline>'' @
     ''                .form-input {\<newline>'' @
     ''                    padding: 0.6rem 1rem;\<newline>'' @
     ''                    border: 1px solid #d1d5db;\<newline>'' @
     ''                    border-radius: 0.5rem;\<newline>'' @
     ''                    width: 100%;\<newline>'' @
     ''                    box-sizing: border-box;\<newline>'' @
     ''                    transition: border-color 0.2s;\<newline>'' @
     ''                }\<newline>'' @
     ''                .form-input:focus {\<newline>'' @
     ''                    outline: none;\<newline>'' @
     ''                    border-color: #6366f1; /* Indigo-500 */\<newline>'' @
     ''                }\<newline>'' @
     ''                .btn {\<newline>'' @
     ''                    padding: 0.75rem 1.5rem;\<newline>'' @
     ''                    border-radius: 0.5rem;\<newline>'' @
     ''                    font-weight: 600;\<newline>'' @
     ''                    cursor: pointer;\<newline>'' @
     ''                    transition: background-color 0.2s, transform 0.1s;\<newline>'' @
     ''                }\<newline>'' @
     ''                .btn-primary {\<newline>'' @
     ''                    background-color: #6366f1; /* Indigo-500 */\<newline>'' @
     ''                    color: #ffffff;\<newline>'' @
     ''                    box-shadow: 0 2px 4px rgba(0, 0, 0, 0.1);\<newline>'' @
     ''                }\<newline>'' @
     ''                .btn-primary:hover {\<newline>'' @
     ''                    background-color: #4f46e5; /* Indigo-600 */\<newline>'' @
     ''                    transform: translateY(-1px);\<newline>'' @
     ''                }\<newline>'' @
     ''                .btn-secondary {\<newline>'' @
     ''                    background-color: #e5e7eb; /* Gray-200 */\<newline>'' @
     ''                    color: #374151; /* Gray-700 */\<newline>'' @
     ''                    box-shadow: 0 2px 4px rgba(0, 0, 0, 0.05);\<newline>'' @
     ''                }\<newline>'' @
     ''                .btn-secondary:hover {\<newline>'' @
     ''                    background-color: #d1d5db; /* Gray-300 */\<newline>'' @
     ''                    transform: translateY(-1px);\<newline>'' @
     ''                }\<newline>'' @
     ''                table {\<newline>'' @
     ''                    width: 100%;\<newline>'' @
     ''                    border-collapse: collapse;\<newline>'' @
     ''                    margin-top: 1.5rem;\<newline>'' @
     ''                }\<newline>'' @
     ''                th, td {\<newline>'' @
     ''                    text-align: left;\<newline>'' @
     ''                    padding: 0.8rem 1rem;\<newline>'' @
     ''                    border-bottom: 1px solid #e5e7eb; /* Gray-200 */\<newline>'' @
     ''                }\<newline>'' @
     ''                th {\<newline>'' @
     ''                    background-color: #f9fafb; /* Gray-50 */\<newline>'' @
     ''                    font-weight: 600;\<newline>'' @
     ''                    color: #4b5563; /* Gray-600 */\<newline>'' @
     ''                    position: sticky;\<newline>'' @
     ''                    top: 0;\<newline>'' @
     ''                    z-index: 10;\<newline>'' @
     ''                }\<newline>'' @
     ''                tbody tr:hover {\<newline>'' @
     ''                    background-color: #f3f4f6; /* Gray-100 */\<newline>'' @
     ''                }\<newline>'' @
     ''                .job-link {\<newline>'' @
     ''                    color: #6366f1;\<newline>'' @
     ''                    text-decoration: none;\<newline>'' @
     ''                }\<newline>'' @
     ''                .job-link:hover {\<newline>'' @
     ''                    text-decoration: underline;\<newline>'' @
     ''                }\<newline>'' @
     ''                .filter-section {\<newline>'' @
     ''                    display: grid;\<newline>'' @
     ''                    grid-template-columns: repeat(auto-fit, minmax(250px, 1fr));\<newline>'' @
     ''                    gap: 1rem;\<newline>'' @
     ''                }\<newline>'' @
     ''            </style>\<newline>'' @
     ''        </head>\<newline>'' @
     ''        <body>\<newline>'' @
     ''            <div class="container">\<newline>'' @
     ''                <h1 class="text-3xl font-bold text-center text-indigo-700 mb-6 rounded-md p-2">LinkedIn Job Search (TypeScript)</h1>\<newline>'' @
     ''\<newline>'' @
     ''                <form id="filterForm" class="mb-8 p-6 bg-gray-50 rounded-lg shadow-sm">\<newline>'' @
     ''                    <div class="filter-section mb-4">\<newline>'' @
     ''                        <div>\<newline>'' @
     ''                            <label for="keyword" class="block text-sm font-medium text-gray-700 mb-1">Keywords (comma-separated):</label>\<newline>'' @
     ''                            <input type="text" id="keyword" name="keyword" class="form-input" value="'' @
     escapeHtml (keyword queryOptionsForForm) @
     ''">\<newline>'' @
     ''                        </div>\<newline>'' @
     ''                        <div>\<newline>'' @
     ''                            <label for="location" class="block text-sm font-medium text-gray-700 mb-1">Location:</label>\<newline>'' @
     ''                            <input type="text" id="location" name="location" class="form-input" value="'' @
     escapeHtml (location queryOptionsForForm) @
     ''">\<newline>'' @
     ''                        </div>\<newline>'' @
     ''                        <div>\<newline>'' @
     ''                            <label for="dateSincePosted" class="block text-sm font-medium text-gray-700 mb-1">Date Posted:</label>\<newline>'' @
     ''                            <select id="dateSincePosted" name="dateSincePosted" class="form-input">\<newline>'' @
     ''                                <option value="past Week" '' @
     (if dateSincePosted queryOptionsForForm = ''past Week'' then ''selected'' else '''') @
     ''>Past Week</option>\<newline>'' @
     ''                                <option value="24hr" '' @
     (if dateSincePosted queryOptionsForForm = ''24hr'' then ''selected'' else '''') @
     ''>Past 24 Hours</option>\<newline>'' @
     ''                                <option value="past Month" '' @
     (if dateSincePosted queryOptionsForForm = ''past Month'' then ''selected'' else '''') @
     ''>Past Month</option>\<newline>'' @
     ''                                <option value="" '' @
     (if dateSincePosted queryOptionsForForm = '''' then ''selected'' else '''') @
     ''>Anytime</option>\<newline>'' @
     ''                            </select>\<newline>'' @
     ''                        </div>\<newline>'' @
     ''                        <div>\<newline>'' @
     ''                            <label for="limit" class="block text-sm font-medium text-gray-700 mb-1">Limit:</label>\<newline>'' @
     ''                            <input type="number" id="limit" name="limit" class="form-input" value="'' @
     escapeHtml (limit queryOptionsForForm) @
     ''" min="1" max="1000">\<newline>'' @
     ''                        </div>\<newline>'' @
     ''                        <div>\<newline>'' @
     ''                            <label for="jobType" class="block text-sm font-medium text-gray-700 mb-1">Job Type:</label>\<newline>'' @
     ''                            <select id="jobType" name="jobType" class="form-input">\<newline>'' @
     ''                                <option value="" '' @
     (if jobType queryOptionsForForm = '''' then ''selected'' else '''') @
     ''>Any</option>\<newline>'' @
     ''                                <option value="full time" '' @
     (if jobType queryOptionsForForm = ''full time'' then ''selected'' else '''') @
     ''>Full-time</option>\<newline>'' @
     ''                                <option value="part time" '' @
     (if jobType queryOptionsForForm = ''part time'' then ''selected'' else '''') @
     ''>Part-time</option>\<newline>'' @
     ''                                <option value="contract" '' @
     (if jobType queryOptionsForForm = ''contract'' then ''selected'' else '''') @
     ''>Contract</option>\<newline>'' @
     ''                                <option value="temporary" '' @
     (if jobType queryOptionsForForm = ''temporary'' then ''selected'' else '''') @
     ''>Temporary</option>\<newline>'' @
     ''                                <option value="volunteer" '' @
     (if jobType queryOptionsForForm = ''volunteer'' then ''selected'' else '''') @
     ''>Volunteer</option>\<newline>'' @
     ''                                <option value="internship" '' @
     (if jobType queryOptionsForForm = ''internship'' then ''selected'' else '''') @
     ''>Internship</option>\<newline>'' @
     ''                            </select>\<newline>'' @
     ''                        </div>\<newline>'' @
     ''                        <div>\<newline>'' @
     ''                            <label for="remoteFilter" class="block text-sm font-medium text-gray-700 mb-1">Remote:</label>\<newline>'' @
     ''                            <select id="remoteFilter" name="remoteFilter" class="form-input">\<newline>'' @
     ''                                <option value="" '' @
     (if remoteFilter queryOptionsForForm = '''' then ''selected'' else '''') @
     ''>Any</option>\<newline>'' @
     ''                                <option value="remote" '' @
     (if remoteFilter queryOptionsForForm = ''remote'' then ''selected'' else '''') @
     ''>Remote</option>\<newline>'' @
     ''                                <option value="on site" '' @
     (if remoteFilter queryOptionsForForm = ''on site'' then ''selected'' else '''') @
     ''>On-site</option>\<newline>'' @
     ''                                <option value="hybrid" '' @
     (if remoteFilter queryOptionsForForm = ''hybrid'' then ''selected'' else '''') @
     ''>Hybrid</option>\<newline>'' @
     ''                            </select>\<newline>'' @
     ''                        </div>\<newline>'' @
     ''                        <div>\<newline>'' @
     ''                            <label for="experienceLevel" class="block text-sm font-medium text-gray-700 mb-1">Experience Level:</label>\<newline>'' @
     ''                            <select id="experienceLevel" name="experienceLevel" class="form-input">\<newline>'' @
     ''                                <option value="" '' @
     (if experienceLevel queryOptionsForForm = '''' then ''selected'' else '''') @
     ''>Any</option>\<newline>'' @
     ''                                <option value="internship" '' @
     (if experienceLevel queryOptionsForForm = ''internship'' then ''selected'' else '''') @
     ''>Internship</option>\<newline>'' @
     ''                                <option value="entry level" '' @
     (if experienceLevel queryOptionsForForm = ''entry level'' then ''selected'' else '''') @
     ''>Entry Level</option>\<newline>'' @
     ''                                <option value="associate" '' @
     (if experienceLevel queryOptionsForForm = ''associate'' then ''selected'' else '''') @
     ''>Associate</option>\<newline>'' @
     ''                                <option value="senior" '' @
     (if experienceLevel queryOptionsForForm = ''senior'' then ''selected'' else '''') @
     ''>Senior</option>\<newline>'' @
     ''                                <option value="director" '' @
     (if experienceLevel queryOptionsForForm = ''director'' then ''selected'' else '''') @
     ''>Director</option>\<newline>'' @
     ''                                <option value="executive" '' @
     (if experienceLevel queryOptionsForForm = ''executive'' then ''selected'' else '''') @
     ''>Executive</option>\<newline>'' @
     ''                            </select>\<newline>'' @
     ''                        </div>\<newline>'' @
     ''                        <div>\<newline>'' @
     ''                            <label for="sortBy" class="block text-sm font-medium text-gray-700 mb-1">Sort By:</label>\<newline>'' @
     ''                            <select id="sortBy" name="sortBy" class="form-input">\<newline>'' @
     ''                                <option value="recent" '' @
     (if sortBy queryOptionsForForm = ''recent'' then ''selected'' else '''') @
     ''>Recent</option>\<newline>'' @
     ''                                <option value="relevant" '' @
     (if sortBy queryOptionsForForm = ''relevant'' then ''selected'' else '''') @
     ''>Relevant</option>\<newline>'' @
     ''                            </select>\<newline>'' @
     ''                        </div>\<newline>'' @
     ''                            </div>\<newline>'' @
     ''                            <div class="flex justify-end gap-3 mt-4">\<newline>'' @
     ''                                <button type="submit" class="btn btn-primary">Apply Filters</button>\<newline>'' @
     ''                                <button type="button" id="exportCsvBtn" class="btn btn-secondary">Export to CSV</button>\<newline>'' @
     ''                            </div>\<newline>'' @
     ''                        </form>\<newline>'' @
     ''\<newline>'' @
     ''                        '' @
     errorBanner cachedErrorMessage @
     ''\<newline>'' @
     ''\<newline>'' @
     ''                        <div class="overflow-x-auto rounded-lg shadow-md">\<newline>'' @
     ''                            <table id="jobTable" class="min-w-full bg-white rounded-lg">\<newline>'' @
     ''                                <thead>\<newline>'' @
     ''                                    <tr>\<newline>'' @
     ''                                        <th>Position</th>\<newline>'' @
     ''                                        <th>Company</th>\<newline>'' @
     ''                                        <th>Location</th>\<newline>'' @
     ''                                        <th>Posted Date</th>\<newline>'' @
     ''                                        <th>Salary</th>\<newline>'' @
     ''                                        <th>Link</th>\<newline>'' @
     ''                                    </tr>\<newline>'' @
     ''                                </thead>\<newline>'' @
     ''                                <tbody>\<newline>'' @
     ''                                    ''\<close>

definition pageSuffix :: string where
  \<open>pageSuffix =
     ''\<newline>'' @
     ''                                </tbody>\<newline>'' @
     ''                            </table>\<newline>'' @
     ''                        </div>\<newline>'' @
     ''                    </div>\<newline>'' @
     ''\<newline>'' @
     ''                    <script>\<newline>'' @
     ''                        document.getElementById(\'filterForm\').addEventListener(\'submit\', function(event) {\<newline>'' @
     ''                            event.preventDefault(); // Prevent default form submission\<newline>'' @
     ''\<newline>'' @
     ''                            // Since job data is fetched once at server startup,\<newline>'' @
     ''                            // this client-side form now only provides visual filtering\<newline>'' @
     ''                            // or serves as an indicator of what parameters were used.\<newline>'' @
     ''                            // The actual job search on the server does NOT react to these changes.\<newline>'' @
     ''                            // To change job search parameters, you must restart the Node.js server\<newline>'' @
     ''                            // with new command-line arguments.\<newline>'' @
     ''                            alert(\'To change job search parameters, please restart the Node.js server with new command-line arguments. The current display is based on the initial server startup parameters.\');\<newline>'' @
     ''                        });\<newline>'' @
     ''\<newline>'' @
     ''\<newline>'' @
     ''                        document.getElementById(\'exportCsvBtn\').addEventListener(\'click\', function() {\<newline>'' @
     ''                            const table = document.getElementById(\'jobTable\');\<newline>'' @
     ''                            let csv = [];\<newline>'' @
     ''                            // Get table headers\<newline>'' @
     ''                            const headers = Array.from(table.querySelectorAll(\'th\')).map(th => th.innerText.trim());\<newline>'' @
     ''                            csv.push(headers.join(\',\'));\<newline>'' @
     ''\<newline>'' @
     ''                            // Get table rows\<newline>'' @
     ''                            table.querySelectorAll(\'tbody tr\').forEach(row => {\<newline>'' @
     ''                                const rowData = Array.from(row.querySelectorAll(\'td\')).map((td, index) => {\<newline>'' @
     ''                                    // For the link column, get the href\<newline>'' @
     ''                                    if (index === 5) { // Assuming link is the 6th column (index 5)\<newline>'' @
     ''                                        return td.querySelector(\'a\') ? td.querySelector(\'a\').href : '' @ [CHR 0x27] @ [CHR 0x27] @ '';\<newline>'' @
     ''                                    }\<newline>'' @
     ''                                    // Escape double quotes and enclose in double quotes if it contains commas or double quotes\<newline>'' @
     ''                                    let text = td.innerText.trim();\<newline>'' @
     ''                                    text = text.replace(/"/g, \'""\'); // Escape double quotes\<newline>'' @
     ''                                    if (text.includes(\',\') || text.includes(\'"\') || text.includes('' @ [CHR 0x27] @ [CHR 0x5C] @ ''n\') || text.includes('' @ [CHR 0x27] @ [CHR 0x5C] @ ''r\')) {\<newline>'' @
     ''                                        text = `"${text}"`;\<newline>'' @
     ''                                    }\<newline>'' @
     ''                                    return text;\<newline>'' @
     ''                                });\<newline>'' @
     ''                                csv.push(rowData.join(\',\'));\<newline>'' @
     ''                            });\<newline>'' @
     ''\<newline>'' @
     ''                            // Create a Blob and download it\<newline>'' @
     ''                            const csvFile = new Blob([csv.join('' @ [CHR 0x27] @ [CHR 0x5C] @ ''n\')], { type: \'text/csv\' });\<newline>'' @
     ''                            const downloadLink = document.createElement(\'a\');\<newline>'' @
     ''                            downloadLink.download = \'linkedin_jobs.csv\';\<newline>'' @
     ''                            downloadLink.href = window.URL.createObjectURL(csvFile);\<newline>'' @
     ''                            downloadLink.style.display = \'none\';\<newline>'' @
     ''                            document.body.appendChild(downloadLink);\<newline>'' @
     ''                            downloadLink.click();\<newline>'' @
     ''                            document.body.removeChild(downloadLink);\<newline>'' @
     ''                        });\<newline>'' @
     ''                    </script>\<newline>'' @
     ''                </body>\<newline>'' @
     ''                </html>\<newline>'' @
     ''            ''\<close>

definition renderPage :: "QueryOptions \<Rightarrow> Job list \<Rightarrow> string \<Rightarrow> string" where
  "renderPage queryOptionsForForm cachedJobs cachedErrorMessage =
     pagePrefix queryOptionsForForm cachedErrorMessage @
     join '''' (map renderJobRow cachedJobs) @
     pageSuffix"

section \<open>The server\<close>

text \<open>The three module-level variables.\<close>

record ServerState =
  cachedJobs :: "Job list"
  cachedErrorMessage :: string
  isInitialFetchComplete :: bool

definition initialState :: ServerState where
  "initialState = \<lparr>cachedJobs = [], cachedErrorMessage = [], isInitialFetchComplete = False\<rparr>"

text \<open>
  What the process is started with: \<open>process.argv\<close>, \<open>process.env.PORT\<close> and the mode
  of the runtime for unhandled rejections.
\<close>

record Config =
  argv :: "string list"
  envPORT :: "string option"
  unhandledRejections :: UnhandledRejections

text \<open>
  \<open>const PORT = process.env.PORT || 3000\<close>, as the text the template literals print for it.
\<close>

definition PORT :: "Config \<Rightarrow> string" where
  "PORT cfg = orElseOpt (envPORT cfg) ''3000''"

definition baseUrl :: "Config \<Rightarrow> string" where
  "baseUrl cfg = ''http://localhost:'' @ PORT cfg"

text \<open>
  The handler of \<open>GET /\<close>. It assigns to no variable: it reads the arguments again, reads
  the two cached values and sends the page.
\<close>

definition handleGet :: "Config \<Rightarrow> ServerState \<Rightarrow> event list \<times> unit completion" where
  "handleGet cfg s =
     (case getEffectiveQueryOptions (argv cfg) of
        (out, Exited code) \<Rightarrow> (out, Exited code)
      | (out, Returned queryOptionsForForm) \<Rightarrow>
          (out @ [ResSend (renderPage queryOptionsForForm (cachedJobs s) (cachedErrorMessage s))],
           Returned ()))"

text \<open>The \<open>.then\<close> callback of the startup fetch.\<close>

definition thenHandler :: "Response \<Rightarrow> ServerState \<Rightarrow> ServerState \<times> event list" where
  "thenHandler apiResponse s =
     (case apiResponse of
        JobArray jobs \<Rightarrow>
          (s\<lparr>cachedJobs := jobs\<rparr>,
           [ConsoleLog (''Initial fetch completed. Fetched '' @ toString (length jobs) @ '' jobs.'')])
      | NotArray other \<Rightarrow>
          (s\<lparr>cachedErrorMessage :=
               ''No jobs found or unexpected API response format during initial fetch.''\<rparr>,
           [ConsoleWarnResponse ''Initial fetch: API response was not an array or was empty:'' other]))"

text \<open>
  The \<open>.catch\<close> callback of the startup fetch. It prints the error first. Then the template
  literal reads \<open>error.message\<close>: for \<open>null\<close> and \<open>undefined\<close> the read throws, before
  anything is assigned to \<open>cachedErrorMessage\<close>.
\<close>

definition rateLimitHint :: string where
  "rateLimitHint = '' You might have hit a rate limit. Please wait and try again.''"

definition catchHandler :: "Rejection \<Rightarrow> ServerState \<Rightarrow> ServerState \<times> event list \<times> ending" where
  "catchHandler error s =
     (let printed = [ConsoleErrorFetch ''Initial fetch: Error fetching jobs:'' error] in
      case error of
        NullValue \<Rightarrow> (s, printed, ThrowsTypeError)
      | UndefinedValue \<Rightarrow> (s, printed, ThrowsTypeError)
      | ErrorObject e \<Rightarrow>
          (let failed = ''Failed to fetch jobs during initial startup: '' @
                        orElseOpt (message e) ''Unknown error'' @
                        ''. Please check your connection or API limits.'';
               rateLimited = (case response e of None \<Rightarrow> False | Some r \<Rightarrow> status r = Some 429)
           in (s\<lparr>cachedErrorMessage := (if rateLimited then failed @ rateLimitHint else failed)\<rparr>,
               printed, Returns)))"

text \<open>The \<open>.finally\<close> callback: the flag is set and \<open>open\<close> is called.\<close>

definition finallyHandler :: "Config \<Rightarrow> ServerState \<Rightarrow> ServerState \<times> event list" where
  "finallyHandler cfg s = (s\<lparr>isInitialFetchComplete := True\<rparr>, [OpenBrowser (baseUrl cfg)])"

text \<open>
  The chain \<open>query(...).then(...).catch(...).finally(...)\<close> once the promise of the
  collaborator settles: a resolved promise runs the \<open>.then\<close> callback, which throws
  nothing, and a rejected one the \<open>.catch\<close> callback. The \<open>.finally\<close> callback runs in
  both cases, also when the \<open>.catch\<close> callback has thrown; the promise that \<open>.finally\<close>
  returns is then rejected, and nothing handles it. The callbacks run as consecutive
  microtasks, so no request handler runs between them.
\<close>

definition settleFetch ::
  "Config \<Rightarrow> Settlement \<Rightarrow> ServerState \<Rightarrow> ServerState \<times> event list \<times> ending"
where
  "settleFetch cfg settlement s =
     (case (case settlement of
              Resolved apiResponse \<Rightarrow>
                (case thenHandler apiResponse s of (s', out) \<Rightarrow> (s', out, Returns))
            | Rejected error \<Rightarrow> catchHandler error s) of
        (s', out, ending) \<Rightarrow>
          (case finallyHandler cfg s' of (s'', out') \<Rightarrow> (s'', out @ out', ending)))"

text \<open>The two callbacks on the promise returned by \<open>open\<close>.\<close>

definition settleOpen :: "Config \<Rightarrow> OpenSettlement \<Rightarrow> event list" where
  "settleOpen cfg settlement =
     (case settlement of
        OpenResolved \<Rightarrow> [ConsoleLog (''Opened '' @ baseUrl cfg @ '' in browser.'')]
      | OpenRejected err \<Rightarrow> [ConsoleErrorOpen ''Failed to open browser:'' err])"

section \<open>The process\<close>

text \<open>
  A process: the module-level variables, whether the promise of the startup fetch and the
  promise of \<open>open\<close> are still pending, the exit code once the process has ended, and
  everything observable the process has done so far. A process that has ended has no
  pending promise.
\<close>

record Process =
  globals :: ServerState
  fetchPending :: bool
  openPending :: bool
  exitCode :: "int option"
  trace :: "event list"

text \<open>
  The callback of \<open>app.listen\<close>, up to the call of the collaborator. When the arguments hold a
  help flag the process ends inside \<open>getEffectiveQueryOptions\<close>, before the call.
\<close>

definition boot :: "Config \<Rightarrow> Process" where
  "boot cfg =
     (let running = [ConsoleLog (''Server running on '' @ baseUrl cfg)] in
      case getEffectiveQueryOptions (argv cfg) of
        (out, Exited code) \<Rightarrow>
          \<lparr>globals = initialState, fetchPending = False, openPending = False,
           exitCode = Some code, trace = running @ out\<rparr>
      | (out, Returned queryOptions) \<Rightarrow>
          \<lparr>globals = initialState, fetchPending = True, openPending = False,
           exitCode = None,
           trace = running @ out @
                   [ConsoleLog ''Performing initial job search...'', LinkedInQuery queryOptions]\<rparr>)"

text \<open>
  What can happen to a running process: the promise of the fetch settles, the promise of
  \<open>open\<close> settles, or a \<open>GET /\<close> request arrives. A promise settles once, and only a
  pending one does; an exited process does nothing any more. When the chain of the fetch
  ends in a rejected promise, the runtime reports the unhandled rejection once the
  microtasks have run, before any other callback: it goes on in the mode \<open>warn\<close> and
  ends the process with exit status 1 in the mode \<open>throw\<close>.
\<close>

datatype stimulus = FetchSettles Settlement | OpenSettles OpenSettlement | GetRequest

definition step :: "Config \<Rightarrow> stimulus \<Rightarrow> Process \<Rightarrow> Process option" where
  "step cfg x p =
     (if exitCode p \<noteq> None then None
      else case x of
        FetchSettles settlement \<Rightarrow>
          (if fetchPending p then
             (case settleFetch cfg settlement (globals p) of
                (s, out, Returns) \<Rightarrow>
                  Some (p\<lparr>globals := s, fetchPending := False, openPending := True,
                          trace := trace p @ out\<rparr>)
              | (s, out, ThrowsTypeError) \<Rightarrow>
                  (case unhandledRejections cfg of
                     Warn \<Rightarrow>
                       Some (p\<lparr>globals := s, fetchPending := False, openPending := True,
                               trace := trace p @ out @ [UnhandledRejection]\<rparr>)
                   | Throw \<Rightarrow>
                       Some (p\<lparr>globals := s, fetchPending := False, openPending := False,
                               exitCode := Some 1,
                               trace := trace p @ out @ [UnhandledRejection]\<rparr>)))
           else None)
      | OpenSettles settlement \<Rightarrow>
          (if openPending p then
             Some (p\<lparr>openPending := False, trace := trace p @ settleOpen cfg settlement\<rparr>)
           else None)
      | GetRequest \<Rightarrow>
          (case handleGet cfg (globals p) of
             (out, Exited code) \<Rightarrow> Some (p\<lparr>exitCode := Some code, trace := trace p @ out\<rparr>)
           | (out, Returned _) \<Rightarrow> Some (p\<lparr>trace := trace p @ out\<rparr>)))"

text \<open>The process after a sequence of stimuli, when each of them can happen in its turn.\<close>

fun run :: "Config \<Rightarrow> stimulus list \<Rightarrow> Process \<Rightarrow> Process option" where
  "run cfg [] p = Some p"
| "run cfg (x # xs) p = (case step cfg x p of None \<Rightarrow> None | Some p' \<Rightarrow> run cfg xs p')"

text \<open>\<open>reaches cfg p q\<close>: the process \<open>p\<close> can become \<open>q\<close>.\<close>

inductive reaches :: "Config \<Rightarrow> Process \<Rightarrow> Process \<Rightarrow> bool" for cfg :: Config where
  reaches_refl: "reaches cfg p p"
| reaches_step: "reaches cfg p q \<Longrightarrow> step cfg x q = Some r \<Longrightarrow> reaches cfg p r"

text \<open>The processes that a start with \<open>cfg\<close> can lead to.\<close>

definition reachable :: "Config \<Rightarrow> Process \<Rightarrow> bool" where
  "reachable cfg p \<longleftrightarrow> reaches cfg (boot cfg) p"

section \<open>The vocabulary of the properties\<close>

text \<open>The names of the nine fields, as the command line spells them.\<close>

definition recognizedKeys :: "string list" where
  "recognizedKeys =
     [''keyword'', ''location'', ''limit'', ''dateSincePosted'', ''jobType'', ''remoteFilter'',
      ''salary'', ''experienceLevel'', ''sortBy'']"

text \<open>
  A token \<open>--key=value\<close>: the token starts with two dashes, the key and an equals sign, and
  the value is what follows.
\<close>

definition overrideValue :: "string \<Rightarrow> string \<Rightarrow> string option" where
  "overrideValue key tok =
     (if prefix (''--'' @ key @ ''='') tok then Some (drop (length key + 3) tok) else None)"

definition isOverrideToken :: "string \<Rightarrow> bool" where
  "isOverrideToken tok \<longleftrightarrow> (\<exists>key \<in> set recognizedKeys. overrideValue key tok \<noteq> None)"

definition isHelpFlag :: "string \<Rightarrow> bool" where
  "isHelpFlag tok \<longleftrightarrow> tok = ''--help'' \<or> tok = ''-h''"

text \<open>The enumeration of a field; the three free-form fields have none.\<close>

definition enumeration :: "string \<Rightarrow> string list option" where
  "enumeration key =
     (if key = ''dateSincePosted'' then Some validDateSincePosted
      else if key = ''jobType'' then Some validJobTypes
      else if key = ''remoteFilter'' then Some validRemoteFilters
      else if key = ''salary'' then Some validSalaries
      else if key = ''experienceLevel'' then Some validExperienceLevels
      else if key = ''sortBy'' then Some validSortBys
      else None)"

text \<open>
  A value is valid for a field when the field is free-form or its enumeration holds the value.
\<close>

definition validValue :: "string \<Rightarrow> string \<Rightarrow> bool" where
  "validValue key value = (case enumeration key of None \<Rightarrow> True | Some valid \<Rightarrow> value \<in> set valid)"

text \<open>The field of a parameter set that a key names.\<close>

definition fieldOf :: "string \<Rightarrow> QueryOptions \<Rightarrow> string" where
  "fieldOf key q =
     (if key = ''keyword'' then keyword q
      else if key = ''location'' then location q
      else if key = ''limit'' then limit q
      else if key = ''dateSincePosted'' then dateSincePosted q
      else if key = ''jobType'' then jobType q
      else if key = ''remoteFilter'' then remoteFilter q
      else if key = ''salary'' then salary q
      else if key = ''experienceLevel'' then experienceLevel q
      else if key = ''sortBy'' then sortBy q
      else [])"

text \<open>
  The values that the tokens of a sequence give validly to a key, in the order of the tokens,
  and the merge policy read from the specification: the last valid override of a field
  replaces its default, and the default is kept when there is none.
\<close>

definition validOverrides :: "string \<Rightarrow> string list \<Rightarrow> string list" where
  "validOverrides key toks =
     concat (map (\<lambda>tok. case overrideValue key tok of
                           None \<Rightarrow> []
                         | Some v \<Rightarrow> if validValue key v then [v] else []) toks)"

definition lastWriteWins :: "string \<Rightarrow> string list \<Rightarrow> string" where
  "lastWriteWins key toks =
     (if validOverrides key toks = [] then fieldOf key hardcodedDefaultOptions
      else last (validOverrides key toks))"

text \<open>The characters that delimit markup and attribute values in HTML.\<close>

definition isMarkup :: "char \<Rightarrow> bool" where
  "isMarkup c \<longleftrightarrow> c = CHR ''<'' \<or> c = CHR ''>'' \<or> c = CHR 0x22 \<or> c = CHR 0x27"

text \<open>The calls of \<open>open\<close> and the calls of the collaborator among the events of a trace.\<close>

fun isOpenBrowser :: "event \<Rightarrow> bool" where
  "isOpenBrowser (OpenBrowser url) = True"
| "isOpenBrowser e = False"

fun isLinkedInQuery :: "event \<Rightarrow> bool" where
  "isLinkedInQuery (LinkedInQuery queryOptions) = True"
| "isLinkedInQuery e = False"

text \<open>
  What holds of every process that a start without a help flag leads to: the process has
  called the collaborator once, and it is alive as long as a promise is pending; while
  the promise of the fetch is pending the variables have their initial values and \<open>open\<close>
  has not been called; afterwards the flag is set, at most one of the two cached values is
  non-empty, and \<open>open\<close> has been called once, with the base URL.
\<close>

definition consistent :: "Config \<Rightarrow> Process \<Rightarrow> bool" where
  "consistent cfg p \<longleftrightarrow>
     length (filter isLinkedInQuery (trace p)) = 1 \<and>
     (openPending p \<longrightarrow> exitCode p = None) \<and>
     (if fetchPending p
      then exitCode p = None \<and> globals p = initialState \<and> \<not> openPending p \<and>
           filter isOpenBrowser (trace p) = []
      else isInitialFetchComplete (globals p) \<and>
           (cachedJobs (globals p) = [] \<or> cachedErrorMessage (globals p) = []) \<and>
           filter isOpenBrowser (trace p) = [OpenBrowser (baseUrl cfg)])"

section \<open>Properties of the string operations\<close>

lemma js_split_unfold:
  "js_split c s = takeWhile (\<lambda>x. x \<noteq> c) s #
     (if c \<in> set s then js_split c (tl (dropWhile (\<lambda>x. x \<noteq> c) s)) else [])"
  by (induction s) auto

lemma js_split_two:
  assumes "js_split c s = key # value # others"
  shows "s = key @ c # tl (dropWhile (\<lambda>x. x \<noteq> c) s)"
    and "c \<notin> set key"
    and "value = takeWhile (\<lambda>x. x \<noteq> c) (tl (dropWhile (\<lambda>x. x \<noteq> c) s))"
proof -
  let ?t = "tl (dropWhile (\<lambda>x. x \<noteq> c) s)"
  from assms js_split_unfold [of c s]
  have key: "key = takeWhile (\<lambda>x. x \<noteq> c) s" and mem: "c \<in> set s"
    and tail: "js_split c ?t = value # others"
    by (auto split: if_splits)
  from mem have "dropWhile (\<lambda>x. x \<noteq> c) s \<noteq> []" by simp
  moreover from this have "hd (dropWhile (\<lambda>x. x \<noteq> c) s) = c"
    using hd_dropWhile [of "\<lambda>x. x \<noteq> c" s] by simp
  ultimately have "dropWhile (\<lambda>x. x \<noteq> c) s = c # ?t"
    by (cases "dropWhile (\<lambda>x. x \<noteq> c) s") auto
  with key takeWhile_dropWhile_id [of "\<lambda>x. x \<noteq> c" s]
  show "s = key @ c # ?t" by simp
  from key show "c \<notin> set key" by (auto dest: set_takeWhileD)
  from tail js_split_unfold [of c ?t]
  show "value = takeWhile (\<lambda>x. x \<noteq> c) ?t" by simp
qed

lemma js_split_key_value:
  assumes "c \<notin> set key"
  shows "\<exists>others. js_split c (key @ c # v) = key # takeWhile (\<lambda>x. x \<noteq> c) v # others"
proof -
  have "takeWhile (\<lambda>x. x \<noteq> c) (key @ c # v) = key"
    using assms by (induction key) auto
  moreover have "dropWhile (\<lambda>x. x \<noteq> c) (key @ c # v) = c # v"
    using assms by (induction key) auto
  ultimately show ?thesis
    using js_split_unfold [of c "key @ c # v"] js_split_unfold [of c v] by simp
qed

lemma join_empty_separator: "join [] xs = concat xs"
  by (induction "[] :: string" xs rule: join.induct) simp_all

lemma set_replaceAll:
  "set (replaceAll c r s) = (set s - {c}) \<union> (if c \<in> set s then set r else {})"
  by (induction s) auto

section \<open>escapeHtml leaves no markup character\<close>

lemma escapeHtml_chars: "c \<in> set (escapeHtml s) \<Longrightarrow> \<not> isMarkup c"
  unfolding escapeHtml_def set_replaceAll isMarkup_def by (auto split: if_splits)

lemma filter_escapeHtml: "filter isMarkup (escapeHtml s) = []"
  using escapeHtml_chars by (auto simp: filter_empty_conv)

text \<open>
  Claim C10. Whatever the input, the output of \<open>escapeHtml\<close> holds no \<open><\<close>, no \<open>>\<close>, no
  double quote and no single quote. So the values that the page interpolates through
  \<open>escapeHtml\<close> add no markup character to it: the markup characters of a table row are the
  same for every job, and those of the text before the rows are the same for every
  parameter set.
\<close>

theorem escapeHtml_output_has_no_markup:
  "CHR ''<'' \<notin> set (escapeHtml s) \<and> CHR ''>'' \<notin> set (escapeHtml s) \<and>
   CHR 0x22 \<notin> set (escapeHtml s) \<and> CHR 0x27 \<notin> set (escapeHtml s) \<and>
   filter isMarkup (renderJobRow job) = filter isMarkup (renderJobRow job') \<and>
   filter isMarkup (pagePrefix q err) = filter isMarkup (pagePrefix q' err)"
proof -
  have chars: "CHR ''<'' \<notin> set (escapeHtml s) \<and> CHR ''>'' \<notin> set (escapeHtml s) \<and>
      CHR 0x22 \<notin> set (escapeHtml s) \<and> CHR 0x27 \<notin> set (escapeHtml s)"
    using escapeHtml_chars [of _ s] by (auto simp: isMarkup_def)
  have row: "filter isMarkup (renderJobRow job) = filter isMarkup (renderJobRow job')"
    unfolding renderJobRow_def by (simp only: filter_append filter_escapeHtml)
  have selected: "\<And>b. filter isMarkup (if b then ''selected'' else '''') = []"
    by (simp add: isMarkup_def)
  have page: "filter isMarkup (pagePrefix q err) = filter isMarkup (pagePrefix q' err)"
    unfolding pagePrefix_def by (simp only: filter_append filter_escapeHtml selected)
  from chars row page show ?thesis by simp
qed

section \<open>One argument\<close>

lemma recognized_no_equals: "k \<in> set recognizedKeys \<Longrightarrow> CHR ''='' \<notin> set k \<and> k \<noteq> []"
  by (auto simp: recognizedKeys_def)

lemma overrideValue_Some: "overrideValue k tok = Some v \<longleftrightarrow> tok = ''--'' @ k @ ''='' @ v"
  by (auto simp: overrideValue_def prefix_def eval_nat_numeral)

lemma switchKey_cases:
  "fst (switchKey key value args) = args \<or> fst (switchKey key value args) = args(key \<mapsto> value)"
  by (simp add: switchKey_def enumeratedCase_def)

lemma switchKey_other: "k \<noteq> key \<Longrightarrow> fst (switchKey key value args) k = args k"
  using switchKey_cases [of key "value" args] by auto

lemma switchKey_same:
  "k \<in> set recognizedKeys \<Longrightarrow>
   fst (switchKey k value args) k = (if validValue k value then Some value else args k)"
  by (auto simp: recognizedKeys_def switchKey_def enumeratedCase_def validValue_def enumeration_def)

lemma switchKey_enumerated:
  "enumeration k = Some valid \<Longrightarrow> switchKey k value args = enumeratedCase valid k value args"
  unfolding enumeration_def switchKey_def by (simp split: if_splits)

lemma switchKey_warning:
  "enumeration k = Some valid \<Longrightarrow> value \<notin> set valid \<Longrightarrow>
   snd (switchKey k value args) = [ConsoleWarn (invalidValueWarning k value valid)]"
  by (simp add: switchKey_enumerated enumeratedCase_def)

lemma switchKey_warnings: "e \<in> set (snd (switchKey key value args)) \<Longrightarrow> \<exists>m. e = ConsoleWarn m"
  by (simp add: switchKey_def enumeratedCase_def split: if_splits)

lemma parseArgument_warnings:
  "e \<in> set (snd (parseArgument arg args)) \<Longrightarrow> \<exists>m. e = ConsoleWarn m"
  using switchKey_warnings
  by (auto simp: parseArgument_def split: list.splits if_splits)

lemma parseArgument_override:
  assumes k: "k \<in> set recognizedKeys" and tok: "overrideValue k arg = Some v"
  shows "parseArgument arg args = switchKey k (takeWhile (\<lambda>x. x \<noteq> CHR ''='') v) args"
proof -
  from tok have arg: "arg = ''--'' @ k @ ''='' @ v" by (simp add: overrideValue_Some)
  from k have "CHR ''='' \<notin> set k" and "k \<noteq> []" by (simp_all add: recognized_no_equals)
  moreover from this js_split_key_value [of "CHR ''=''" k v]
  obtain others where
    "js_split CHR ''='' (k @ CHR ''='' # v) = k # takeWhile (\<lambda>x. x \<noteq> CHR ''='') v # others"
    by blast
  ultimately show ?thesis
    by (simp add: parseArgument_def startsWith_def substring_def arg)
qed

lemma parseArgument_no_override:
  assumes tok: "overrideValue k arg = None"
  shows "fst (parseArgument arg args) k = args k"
proof (cases "startsWith arg ''--''")
  case False
  then show ?thesis by (simp add: parseArgument_def)
next
  case dashes: True
  show ?thesis
  proof (cases "js_split CHR ''='' (substring arg 2)")
    case Nil
    then show ?thesis by (simp add: parseArgument_def)
  next
    case (Cons key more)
    show ?thesis
    proof (cases more)
      case Nil
      with Cons show ?thesis by (simp add: parseArgument_def)
    next
      case (Cons val others)
      with \<open>js_split CHR ''='' (substring arg 2) = key # more\<close>
      have pieces: "js_split CHR ''='' (drop 2 arg) = key # val # others"
        by (simp add: substring_def)
      from dashes have "take 2 arg = ''--''" by (simp add: startsWith_def numeral_2_eq_2)
      then have "arg = ''--'' @ drop 2 arg"
        using append_take_drop_id [of 2 arg] by metis
      with js_split_two(1) [OF pieces]
      have "arg = ''--'' @ key @ ''='' @ tl (dropWhile (\<lambda>x. x \<noteq> CHR ''='') (drop 2 arg))"
        by simp
      then have "overrideValue key arg \<noteq> None"
        using overrideValue_Some [of key arg] by auto
      with tok have "k \<noteq> key" by auto
      with pieces dashes show ?thesis
        by (simp add: parseArgument_def substring_def switchKey_other)
    qed
  qed
qed

lemma parseArgument_lookup:
  assumes k: "k \<in> set recognizedKeys"
  shows "fst (parseArgument arg args) k =
     (case overrideValue k arg of
        None \<Rightarrow> args k
      | Some v \<Rightarrow>
          if validValue k (takeWhile (\<lambda>x. x \<noteq> CHR ''='') v)
          then Some (takeWhile (\<lambda>x. x \<noteq> CHR ''='') v) else args k)"
proof (cases "overrideValue k arg")
  case None
  then show ?thesis by (simp add: parseArgument_no_override)
next
  case (Some v)
  with k show ?thesis
    using parseArgument_override [OF k Some, of args] switchKey_same [OF k]
    by simp
qed

lemma parseArgument_domain:
  "fst (parseArgument arg args) k \<noteq> args k \<Longrightarrow> k \<in> set recognizedKeys"
  by (auto simp: parseArgument_def switchKey_def enumeratedCase_def recognizedKeys_def
           split: list.splits if_splits)

section \<open>The loop over the arguments\<close>

lemma parseLoop_help_step:
  "isHelpFlag t \<Longrightarrow> parseLoop (t # toks) args out = (out @ [ConsoleLog usageText], Exited 0)"
  by (auto simp: isHelpFlag_def showHelpAndExit_def)


lemma parseLoop_step:
  "\<not> isHelpFlag t \<Longrightarrow>
   parseLoop (t # toks) args out =
     parseLoop toks (fst (parseArgument t args)) (out @ snd (parseArgument t args))"
  by (simp add: isHelpFlag_def split: prod.splits)

declare parseLoop.simps(2) [simp del]

lemma parseLoop_no_help:
  assumes "\<forall>t \<in> set toks. \<not> isHelpFlag t"
  shows "\<exists>ws a. parseLoop toks args out = (out @ ws, Returned a) \<and>
           (\<forall>e \<in> set ws. \<exists>m. e = ConsoleWarn m)"
  using assms
proof (induction toks arbitrary: args out)
  case Nil
  then show ?case by simp
next
  case (Cons t toks)
  let ?args = "fst (parseArgument t args)" and ?ws = "snd (parseArgument t args)"
  from Cons.prems have t: "\<not> isHelpFlag t" and rest: "\<forall>t \<in> set toks. \<not> isHelpFlag t"
    by simp_all
  from Cons.IH [OF rest, of ?args "out @ ?ws"]
  obtain ws a where loop: "parseLoop toks ?args (out @ ?ws) = ((out @ ?ws) @ ws, Returned a)"
    and warn: "\<forall>e \<in> set ws. \<exists>m. e = ConsoleWarn m"
    by blast
  have "\<forall>e \<in> set (?ws @ ws). \<exists>m. e = ConsoleWarn m"
    using warn parseArgument_warnings [of _ t args] by auto
  moreover have "parseLoop (t # toks) args out = (out @ (?ws @ ws), Returned a)"
    using loop by (simp add: parseLoop_step [OF t])
  ultimately show ?case by blast
qed

lemma parseLoop_help:
  assumes "\<exists>t \<in> set toks. isHelpFlag t"
  shows "\<exists>ws. parseLoop toks args out = (out @ ws @ [ConsoleLog usageText], Exited 0) \<and>
           (\<forall>e \<in> set ws. \<exists>m. e = ConsoleWarn m)"
  using assms
proof (induction toks arbitrary: args out)
  case Nil
  then show ?case by simp
next
  case (Cons t toks)
  show ?case
  proof (cases "isHelpFlag t")
    case True
    then have "parseLoop (t # toks) args out = (out @ [] @ [ConsoleLog usageText], Exited 0)"
      by (simp add: parseLoop_help_step)
    then show ?thesis by (intro exI [of _ "[]"]) simp
  next
    case False
    let ?args = "fst (parseArgument t args)" and ?ws = "snd (parseArgument t args)"
    from False Cons.prems have "\<exists>t \<in> set toks. isHelpFlag t" by auto
    from Cons.IH [OF this, of ?args "out @ ?ws"]
    obtain ws where
      loop: "parseLoop toks ?args (out @ ?ws) = ((out @ ?ws) @ ws @ [ConsoleLog usageText], Exited 0)"
      and warn: "\<forall>e \<in> set ws. \<exists>m. e = ConsoleWarn m"
      by blast
    have "\<forall>e \<in> set (?ws @ ws). \<exists>m. e = ConsoleWarn m"
      using warn parseArgument_warnings [of _ t args] by auto
    moreover have
      "parseLoop (t # toks) args out = (out @ (?ws @ ws) @ [ConsoleLog usageText], Exited 0)"
      using loop by (simp add: parseLoop_step [OF False])
    ultimately show ?thesis by blast
  qed
qed

lemma parseLoop_help_cut:
  assumes "\<exists>t \<in> set toks. isHelpFlag t"
  shows "parseLoop toks args out =
         parseLoop (takeWhile (\<lambda>t. \<not> isHelpFlag t) toks @ [''--help'']) args out"
  using assms
proof (induction toks arbitrary: args out)
  case Nil
  then show ?case by simp
next
  case (Cons t toks)
  have flag: "isHelpFlag ''--help''" by (simp add: isHelpFlag_def)
  show ?case
  proof (cases "isHelpFlag t")
    case True
    then show ?thesis by (simp add: parseLoop_help_step flag)
  next
    case False
    with Cons.prems have "\<exists>t \<in> set toks. isHelpFlag t" by auto
    from Cons.IH [OF this] False show ?thesis by (simp add: parseLoop_step)
  qed
qed

lemma parseLoop_output_grows: "set out \<subseteq> set (fst (parseLoop toks args out))"
proof (induction toks arbitrary: args out)
  case Nil
  then show ?case by simp
next
  case (Cons t toks)
  show ?case
  proof (cases "isHelpFlag t")
    case True
    then show ?thesis by (auto simp: parseLoop_help_step)
  next
    case False
    from Cons.IH [of "out @ snd (parseArgument t args)" "fst (parseArgument t args)"]
    show ?thesis by (simp add: parseLoop_step [OF False])
  qed
qed

lemma parseArgument_ignored:
  assumes "\<not> isOverrideToken arg"
  shows "fst (parseArgument arg args) = args"
proof
  fix k
  show "fst (parseArgument arg args) k = args k"
  proof (cases "k \<in> set recognizedKeys")
    case True
    with assms have "overrideValue k arg = None" by (auto simp: isOverrideToken_def)
    then show ?thesis by (rule parseArgument_no_override)
  next
    case False
    then show ?thesis using parseArgument_domain [of arg args k] by blast
  qed
qed

lemma parseLoop_ignored:
  assumes "\<forall>t \<in> set toks. \<not> isOverrideToken t"
  shows "snd (parseLoop toks args out) =
         (if \<exists>t \<in> set toks. isHelpFlag t then Exited 0 else Returned args)"
  using assms
proof (induction toks arbitrary: args out)
  case Nil
  then show ?case by simp
next
  case (Cons t toks)
  show ?case
  proof (cases "isHelpFlag t")
    case True
    then show ?thesis by (simp add: parseLoop_help_step)
  next
    case False
    from Cons.prems have "\<not> isOverrideToken t" and "\<forall>t \<in> set toks. \<not> isOverrideToken t"
      by simp_all
    with Cons.IH [of args "out @ snd (parseArgument t args)"] False
    show ?thesis by (simp add: parseLoop_step parseArgument_ignored)
  qed
qed

lemma takeWhile_no_separator: "c \<notin> set v \<Longrightarrow> takeWhile (\<lambda>x. x \<noteq> c) v = v"
  by (induction v) auto

lemma validOverrides_Cons:
  "validOverrides k (t # toks) =
     (case overrideValue k t of
        None \<Rightarrow> []
      | Some v \<Rightarrow> if validValue k v then [v] else []) @ validOverrides k toks"
  by (simp add: validOverrides_def)

lemma parseLoop_last_write_wins:
  assumes "\<forall>t \<in> set toks. \<not> isHelpFlag t"
    and "k \<in> set recognizedKeys"
    and "\<forall>t \<in> set toks. \<forall>v. overrideValue k t = Some v \<longrightarrow> CHR ''='' \<notin> set v"
  shows "\<exists>a. snd (parseLoop toks args out) = Returned a \<and>
           a k = (if validOverrides k toks = [] then args k
                  else Some (last (validOverrides k toks)))"
  using assms
proof (induction toks arbitrary: args out)
  case Nil
  then show ?case by (simp add: validOverrides_def)
next
  case (Cons t toks)
  let ?args = "fst (parseArgument t args)" and ?ws = "snd (parseArgument t args)"
  from Cons.prems have t: "\<not> isHelpFlag t" and rest: "\<forall>t \<in> set toks. \<not> isHelpFlag t"
    by simp_all
  from Cons.prems have
    noeq: "\<forall>t \<in> set toks. \<forall>v. overrideValue k t = Some v \<longrightarrow> CHR ''='' \<notin> set v"
    by simp
  from Cons.IH [OF rest Cons.prems(2) noeq, of ?args "out @ ?ws"]
  obtain a where ret: "snd (parseLoop toks ?args (out @ ?ws)) = Returned a"
    and look: "a k = (if validOverrides k toks = [] then ?args k
                      else Some (last (validOverrides k toks)))"
    by blast
  have here: "?args k =
      (case overrideValue k t of
         None \<Rightarrow> args k
       | Some v \<Rightarrow> if validValue k v then Some v else args k)"
  proof (cases "overrideValue k t")
    case None
    then show ?thesis by (simp add: parseArgument_lookup [OF Cons.prems(2)])
  next
    case (Some v)
    with Cons.prems(3) have "CHR ''='' \<notin> set v" by simp
    with Some show ?thesis
      by (simp add: parseArgument_lookup [OF Cons.prems(2)] takeWhile_no_separator)
  qed
  have "a k = (if validOverrides k (t # toks) = [] then args k
               else Some (last (validOverrides k (t # toks))))"
    using look here by (auto simp: validOverrides_Cons split: option.splits)
  with ret show ?case by (simp add: parseLoop_step [OF t])
qed

lemma parseLoop_invalid_warned:
  assumes "\<forall>t \<in> set toks. \<not> isHelpFlag t"
    and "tok \<in> set toks"
    and "k \<in> set recognizedKeys"
    and "overrideValue k tok = Some v"
    and "CHR ''='' \<notin> set v"
    and "enumeration k = Some valid"
    and "v \<notin> set valid"
  shows "ConsoleWarn (invalidValueWarning k v valid) \<in> set (fst (parseLoop toks args out))"
  using assms(1,2)
proof (induction toks arbitrary: args out)
  case Nil
  then show ?case by simp
next
  case (Cons t toks)
  let ?args = "fst (parseArgument t args)" and ?ws = "snd (parseArgument t args)"
  from Cons.prems have t: "\<not> isHelpFlag t" and rest: "\<forall>t \<in> set toks. \<not> isHelpFlag t"
    by simp_all
  show ?case
  proof (cases "tok = t")
    case True
    from True assms(3,4,5) have "parseArgument t args = switchKey k v args"
      using parseArgument_override [of k t v args] by (simp add: takeWhile_no_separator)
    with assms(6,7) have "?ws = [ConsoleWarn (invalidValueWarning k v valid)]"
      by (simp add: switchKey_warning)
    then have "ConsoleWarn (invalidValueWarning k v valid) \<in> set (out @ ?ws)" by simp
    with parseLoop_output_grows [of "out @ ?ws" toks ?args]
    show ?thesis by (auto simp: parseLoop_step [OF t])
  next
    case False
    with Cons.prems have "tok \<in> set toks" by simp
    from Cons.IH [OF rest this, of ?args "out @ ?ws"]
    show ?thesis by (simp add: parseLoop_step [OF t])
  qed
qed

section \<open>The resolved parameters\<close>

lemma spread_empty: "spread defaults Map.empty = defaults"
  by (simp add: spread_def)

lemma recognizedKeys_cases:
  "key \<in> set recognizedKeys \<Longrightarrow>
   key = ''keyword'' \<or> key = ''location'' \<or> key = ''limit'' \<or> key = ''dateSincePosted'' \<or>
   key = ''jobType'' \<or> key = ''remoteFilter'' \<or> key = ''salary'' \<or>
   key = ''experienceLevel'' \<or> key = ''sortBy''"
  by (simp add: recognizedKeys_def)

lemma fieldOf_spread:
  assumes "key \<in> set recognizedKeys"
  shows "fieldOf key (spread defaults a) =
         (case a key of None \<Rightarrow> fieldOf key defaults | Some v \<Rightarrow> v)"
  using recognizedKeys_cases [OF assms]
  by (elim disjE) (simp_all add: fieldOf_def spread_def cong: option.case_cong)

lemma getEffectiveQueryOptions_Returned:
  "snd (parseCommandLineArgs av) = Returned a \<Longrightarrow>
   snd (getEffectiveQueryOptions av) = Returned (spread hardcodedDefaultOptions a)"
  by (cases "parseCommandLineArgs av") (simp add: getEffectiveQueryOptions_def)

lemma getEffectiveQueryOptions_Exited:
  "snd (parseCommandLineArgs av) = Exited code \<Longrightarrow>
   snd (getEffectiveQueryOptions av) = Exited code"
  by (cases "parseCommandLineArgs av") (simp add: getEffectiveQueryOptions_def)

lemma getEffectiveQueryOptions_output:
  "fst (getEffectiveQueryOptions av) = fst (parseCommandLineArgs av)"
  by (cases "parseCommandLineArgs av")
     (simp add: getEffectiveQueryOptions_def split: completion.splits)

text \<open>
  Claim C1. When no argument after the first two is a token \<open>--key=value\<close> with a recognized
  key, \<open>getEffectiveQueryOptions\<close> resolves exactly the default set: keyword
  \<open>Vue.js, Angular\<close>, location \<open>london\<close>, dateSincePosted \<open>past Week\<close>, limit \<open>100\<close>,
  jobType, remoteFilter, salary and experienceLevel empty, sortBy \<open>recent\<close>. The only way
  not to resolve a set is a help flag, which ends the process with status 0.
\<close>

theorem defaults_without_overrides:
  assumes "\<forall>tok \<in> set (drop 2 av). \<not> isOverrideToken tok"
  shows "snd (getEffectiveQueryOptions av) =
     (if \<exists>tok \<in> set (drop 2 av). isHelpFlag tok then Exited 0
      else Returned
        \<lparr>keyword = ''Vue.js, Angular'', location = ''london'', dateSincePosted = ''past Week'',
         limit = ''100'', jobType = '''', remoteFilter = '''', salary = '''',
         experienceLevel = '''', sortBy = ''recent''\<rparr>)"
proof -
  from assms have "snd (parseCommandLineArgs av) =
      (if \<exists>tok \<in> set (drop 2 av). isHelpFlag tok then Exited 0 else Returned Map.empty)"
    by (simp add: parseCommandLineArgs_def parseLoop_ignored)
  then show ?thesis
    using getEffectiveQueryOptions_Returned [of av Map.empty]
      getEffectiveQueryOptions_Exited [of av 0]
    by (simp add: spread_empty hardcodedDefaultOptions_def split: if_splits)
qed

theorem defaults_without_overrides_witness:
  "\<not> isOverrideToken ''--verbose'' \<and> \<not> isOverrideToken ''london'' \<and>
   \<not> isOverrideToken ''--sortBy'' \<and> \<not> isOverrideToken ''--colour=red'' \<and>
   snd (getEffectiveQueryOptions
          [''node'', ''dist/server.js'', ''--verbose'', ''london'', ''--sortBy'', ''--colour=red'']) =
     Returned
       \<lparr>keyword = ''Vue.js, Angular'', location = ''london'', dateSincePosted = ''past Week'',
        limit = ''100'', jobType = '''', remoteFilter = '''', salary = '''',
        experienceLevel = '''', sortBy = ''recent''\<rparr>"
proof -
  let ?av = "[''node'', ''dist/server.js'', ''--verbose'', ''london'', ''--sortBy'', ''--colour=red'']"
  have tokens: "\<not> isOverrideToken ''--verbose'' \<and> \<not> isOverrideToken ''london'' \<and>
      \<not> isOverrideToken ''--sortBy'' \<and> \<not> isOverrideToken ''--colour=red''"
    by (simp add: isOverrideToken_def overrideValue_def recognizedKeys_def)
  then have "\<forall>tok \<in> set (drop 2 ?av). \<not> isOverrideToken tok" by simp
  from defaults_without_overrides [OF this] tokens show ?thesis
    by (simp add: isHelpFlag_def)
qed

text \<open>
  Claim C2, as stated, fails: it makes the field of a key equal to the default whenever a
  token gives the key a value outside the enumeration. After \<open>--sortBy=relevant\<close> the token
  \<open>--sortBy=bogus\<close> is outside the enumeration of \<open>sortBy\<close>, and the resolved field is
  \<open>relevant\<close>, not the default \<open>recent\<close>.
\<close>

theorem invalid_value_after_valid_override:
  "overrideValue ''sortBy'' ''--sortBy=bogus'' = Some ''bogus'' \<and>
   \<not> validValue ''sortBy'' ''bogus'' \<and>
   snd (getEffectiveQueryOptions
          [''node'', ''dist/server.js'', ''--sortBy=relevant'', ''--sortBy=bogus'']) =
     Returned
       \<lparr>keyword = ''Vue.js, Angular'', location = ''london'', dateSincePosted = ''past Week'',
        limit = ''100'', jobType = '''', remoteFilter = '''', salary = '''',
        experienceLevel = '''', sortBy = ''relevant''\<rparr> \<and>
   sortBy hardcodedDefaultOptions = ''recent''"
  by (simp add: overrideValue_def validValue_def enumeration_def validSortBys_def
        getEffectiveQueryOptions_def parseCommandLineArgs_def parseLoop.simps parseArgument_def
        startsWith_def substring_def switchKey_def enumeratedCase_def spread_def
        hardcodedDefaultOptions_def invalidValueWarning_def)

text \<open>
  Claim C2, amended. In an argument sequence with no help flag, where no value given to a
  recognized key holds an equals sign, every field resolves to the value of the last token
  \<open>--key=value\<close> for its key whose value is valid for the field (any value for keyword,
  location and limit, a member of the enumeration otherwise), and to the default when there
  is no such token. A token whose value is outside the enumeration of its key is ignored
  with a warning that names the key, the value and the valid values.
\<close>

theorem last_valid_override_wins:
  assumes nohelp: "\<forall>tok \<in> set (drop 2 av). \<not> isHelpFlag tok"
    and noeq: "\<forall>tok \<in> set (drop 2 av). \<forall>key \<in> set recognizedKeys. \<forall>v.
                 overrideValue key tok = Some v \<longrightarrow> CHR ''='' \<notin> set v"
  shows "\<exists>q. snd (getEffectiveQueryOptions av) = Returned q \<and>
     (\<forall>key \<in> set recognizedKeys. fieldOf key q = lastWriteWins key (drop 2 av)) \<and>
     (\<forall>tok \<in> set (drop 2 av). \<forall>key \<in> set recognizedKeys. \<forall>v valid.
        overrideValue key tok = Some v \<and> enumeration key = Some valid \<and> v \<notin> set valid \<longrightarrow>
        ConsoleWarn (invalidValueWarning key v valid) \<in> set (fst (getEffectiveQueryOptions av)))"
proof -
  from parseLoop_no_help [OF nohelp, of Map.empty "[]"]
  obtain a where a: "snd (parseCommandLineArgs av) = Returned a"
    by (auto simp: parseCommandLineArgs_def)
  have fields: "fieldOf key (spread hardcodedDefaultOptions a) = lastWriteWins key (drop 2 av)"
    if key: "key \<in> set recognizedKeys" for key
  proof -
    from noeq key have
      "\<forall>tok \<in> set (drop 2 av). \<forall>v. overrideValue key tok = Some v \<longrightarrow> CHR ''='' \<notin> set v"
      by blast
    from parseLoop_last_write_wins [OF nohelp key this, of Map.empty "[]"] a
    have "a key = (if validOverrides key (drop 2 av) = [] then None
                   else Some (last (validOverrides key (drop 2 av))))"
      by (simp add: parseCommandLineArgs_def)
    with key show ?thesis by (simp add: fieldOf_spread lastWriteWins_def)
  qed
  have warned: "ConsoleWarn (invalidValueWarning key v valid)
        \<in> set (fst (getEffectiveQueryOptions av))"
    if "tok \<in> set (drop 2 av)" "key \<in> set recognizedKeys" "overrideValue key tok = Some v"
      "enumeration key = Some valid" "v \<notin> set valid" for tok key v valid
  proof -
    from noeq that have "CHR ''='' \<notin> set v" by blast
    from parseLoop_invalid_warned [OF nohelp that(1,2,3) this that(4,5), of Map.empty "[]"]
    show ?thesis by (simp add: getEffectiveQueryOptions_output parseCommandLineArgs_def)
  qed
  from getEffectiveQueryOptions_Returned [OF a] fields warned show ?thesis by blast
qed

theorem last_valid_override_wins_witness:
  "\<not> isHelpFlag ''--keyword=React'' \<and> \<not> isHelpFlag ''--sortBy=relevant'' \<and>
   \<not> isHelpFlag ''--sortBy=bogus'' \<and> \<not> isHelpFlag ''--limit='' \<and>
   (\<exists>q. snd (getEffectiveQueryOptions
                [''node'', ''dist/server.js'', ''--keyword=React'', ''--sortBy=relevant'',
                 ''--sortBy=bogus'', ''--limit='']) = Returned q \<and>
        fieldOf ''keyword'' q = ''React'' \<and> fieldOf ''sortBy'' q = ''relevant'' \<and>
        fieldOf ''limit'' q = '''' \<and> fieldOf ''location'' q = ''london'') \<and>
   ConsoleWarn (invalidValueWarning ''sortBy'' ''bogus'' validSortBys)
     \<in> set (fst (getEffectiveQueryOptions
                [''node'', ''dist/server.js'', ''--keyword=React'', ''--sortBy=relevant'',
                 ''--sortBy=bogus'', ''--limit='']))"
proof -
  let ?av = "[''node'', ''dist/server.js'', ''--keyword=React'', ''--sortBy=relevant'',
              ''--sortBy=bogus'', ''--limit='']"
  have flags: "\<not> isHelpFlag ''--keyword=React'' \<and> \<not> isHelpFlag ''--sortBy=relevant'' \<and>
      \<not> isHelpFlag ''--sortBy=bogus'' \<and> \<not> isHelpFlag ''--limit=''"
    by (simp add: isHelpFlag_def)
  then have nohelp: "\<forall>tok \<in> set (drop 2 ?av). \<not> isHelpFlag tok" by simp
  have noeq: "\<forall>tok \<in> set (drop 2 ?av). \<forall>key \<in> set recognizedKeys. \<forall>v.
      overrideValue key tok = Some v \<longrightarrow> CHR ''='' \<notin> set v"
    by (simp add: recognizedKeys_def overrideValue_def)
  from last_valid_override_wins [OF nohelp noeq]
  obtain q where q: "snd (getEffectiveQueryOptions ?av) = Returned q"
    and fields: "\<forall>key \<in> set recognizedKeys. fieldOf key q = lastWriteWins key (drop 2 ?av)"
    and warned: "\<forall>tok \<in> set (drop 2 ?av). \<forall>key \<in> set recognizedKeys. \<forall>v valid.
        overrideValue key tok = Some v \<and> enumeration key = Some valid \<and> v \<notin> set valid \<longrightarrow>
        ConsoleWarn (invalidValueWarning key v valid) \<in> set (fst (getEffectiveQueryOptions ?av))"
    by blast
  have keys: "''keyword'' \<in> set recognizedKeys" "''sortBy'' \<in> set recognizedKeys"
    "''limit'' \<in> set recognizedKeys" "''location'' \<in> set recognizedKeys"
    by (simp_all add: recognizedKeys_def)
  have "lastWriteWins ''keyword'' (drop 2 ?av) = ''React''"
    by (simp add: lastWriteWins_def validOverrides_def overrideValue_def validValue_def
          enumeration_def)
  moreover have "lastWriteWins ''sortBy'' (drop 2 ?av) = ''relevant''"
    by (simp add: lastWriteWins_def validOverrides_def overrideValue_def validValue_def
          enumeration_def validSortBys_def)
  moreover have "lastWriteWins ''limit'' (drop 2 ?av) = ''''"
    by (simp add: lastWriteWins_def validOverrides_def overrideValue_def validValue_def
          enumeration_def)
  moreover have "lastWriteWins ''location'' (drop 2 ?av) = ''london''"
    by (simp add: lastWriteWins_def validOverrides_def overrideValue_def validValue_def
          enumeration_def fieldOf_def hardcodedDefaultOptions_def)
  ultimately have resolved: "fieldOf ''keyword'' q = ''React'' \<and> fieldOf ''sortBy'' q = ''relevant'' \<and>
      fieldOf ''limit'' q = '''' \<and> fieldOf ''location'' q = ''london''"
    using fields keys by metis
  have "overrideValue ''sortBy'' ''--sortBy=bogus'' = Some ''bogus''"
    by (simp add: overrideValue_def)
  moreover have "enumeration ''sortBy'' = Some validSortBys" by (simp add: enumeration_def)
  moreover have "''bogus'' \<notin> set validSortBys" by (simp add: validSortBys_def)
  moreover have "''--sortBy=bogus'' \<in> set (drop 2 ?av)" by simp
  ultimately have "ConsoleWarn (invalidValueWarning ''sortBy'' ''bogus'' validSortBys)
      \<in> set (fst (getEffectiveQueryOptions ?av))"
    using warned keys(2) by blast
  with flags q resolved show ?thesis by blast
qed

section \<open>Start of the process\<close>

lemma warnings_filtered:
  "\<forall>e \<in> set ws. \<exists>m. e = ConsoleWarn m \<Longrightarrow>
   filter isOpenBrowser ws = [] \<and> filter isLinkedInQuery ws = []"
  by (induction ws) auto

lemma getEffectiveQueryOptions_help:
  assumes "\<exists>t \<in> set (drop 2 av). isHelpFlag t"
  shows "\<exists>ws. getEffectiveQueryOptions av = (ws @ [ConsoleLog usageText], Exited 0) \<and>
           (\<forall>e \<in> set ws. \<exists>m. e = ConsoleWarn m)"
  using parseLoop_help [OF assms, of Map.empty "[]"]
  by (auto simp: getEffectiveQueryOptions_def parseCommandLineArgs_def)

lemma getEffectiveQueryOptions_no_help:
  assumes "\<forall>t \<in> set (drop 2 av). \<not> isHelpFlag t"
  shows "\<exists>ws q. getEffectiveQueryOptions av = (ws, Returned q) \<and>
           (\<forall>e \<in> set ws. \<exists>m. e = ConsoleWarn m)"
  using parseLoop_no_help [OF assms, of Map.empty "[]"]
  by (auto simp: getEffectiveQueryOptions_def parseCommandLineArgs_def)

lemma takeWhile_cut:
  assumes "\<not> P h"
  shows "takeWhile P (takeWhile P xs @ [h]) = takeWhile P xs"
  using assms by (induction xs) auto

lemma getEffectiveQueryOptions_cut:
  assumes "\<exists>t \<in> set (drop 2 av). isHelpFlag t"
  shows "getEffectiveQueryOptions av =
         getEffectiveQueryOptions
           (take 2 av @ takeWhile (\<lambda>t. \<not> isHelpFlag t) (drop 2 av) @ [''--help''])"
proof -
  define cut where "cut = takeWhile (\<lambda>t. \<not> isHelpFlag t) (drop 2 av) @ [''--help'']"
  have flag: "isHelpFlag ''--help''" by (simp add: isHelpFlag_def)
  from assms have "drop 2 av \<noteq> []" by auto
  then have "length (take 2 av) = 2" by simp
  then have dropped: "drop 2 (take 2 av @ cut) = cut" by simp
  from flag have "\<exists>t \<in> set cut. isHelpFlag t" by (auto simp: cut_def)
  then have "parseLoop cut Map.empty [] =
      parseLoop (takeWhile (\<lambda>t. \<not> isHelpFlag t) cut @ [''--help'']) Map.empty []"
    by (rule parseLoop_help_cut)
  also have "takeWhile (\<lambda>t. \<not> isHelpFlag t) cut = takeWhile (\<lambda>t. \<not> isHelpFlag t) (drop 2 av)"
    unfolding cut_def using flag by (intro takeWhile_cut) simp
  also have "parseLoop (takeWhile (\<lambda>t. \<not> isHelpFlag t) (drop 2 av) @ [''--help'']) Map.empty [] =
      parseLoop (drop 2 av) Map.empty []"
    using parseLoop_help_cut [OF assms, of Map.empty "[]"] by (rule sym)
  finally have "parseCommandLineArgs (take 2 av @ cut) = parseCommandLineArgs av"
    unfolding parseCommandLineArgs_def dropped .
  then show ?thesis unfolding getEffectiveQueryOptions_def cut_def by (simp only:)
qed
lemma boot_help:
  assumes "\<exists>t \<in> set (drop 2 (argv cfg)). isHelpFlag t"
  shows "\<exists>ws. boot cfg =
           \<lparr>globals = initialState, fetchPending = False, openPending = False,
            exitCode = Some 0,
            trace = ConsoleLog (''Server running on '' @ baseUrl cfg) # ws @ [ConsoleLog usageText]\<rparr> \<and>
           (\<forall>e \<in> set ws. \<exists>m. e = ConsoleWarn m)"
  using getEffectiveQueryOptions_help [OF assms] by (auto simp: boot_def)

lemma boot_no_help:
  assumes "\<forall>t \<in> set (drop 2 (argv cfg)). \<not> isHelpFlag t"
  shows "\<exists>ws q. boot cfg =
           \<lparr>globals = initialState, fetchPending = True, openPending = False,
            exitCode = None,
            trace = ConsoleLog (''Server running on '' @ baseUrl cfg) # ws @
                    [ConsoleLog ''Performing initial job search...'', LinkedInQuery q]\<rparr> \<and>
           (\<forall>e \<in> set ws. \<exists>m. e = ConsoleWarn m)"
  using getEffectiveQueryOptions_no_help [OF assms] by (auto simp: boot_def)

lemma boot_alive:
  "exitCode (boot cfg) = None \<longleftrightarrow> (\<forall>t \<in> set (drop 2 (argv cfg)). \<not> isHelpFlag t)"
proof (cases "\<exists>t \<in> set (drop 2 (argv cfg)). isHelpFlag t")
  case True
  with boot_help [OF True] show ?thesis by auto
next
  case False
  then have "\<forall>t \<in> set (drop 2 (argv cfg)). \<not> isHelpFlag t" by simp
  with boot_no_help [OF this] show ?thesis by auto
qed

lemma boot_consistent:
  assumes "\<forall>t \<in> set (drop 2 (argv cfg)). \<not> isHelpFlag t"
  shows "consistent cfg (boot cfg)"
proof -
  from boot_no_help [OF assms] obtain ws q where
    b: "boot cfg =
           \<lparr>globals = initialState, fetchPending = True, openPending = False,
            exitCode = None,
            trace = ConsoleLog (''Server running on '' @ baseUrl cfg) # ws @
                    [ConsoleLog ''Performing initial job search...'', LinkedInQuery q]\<rparr>"
    and ws: "\<forall>e \<in> set ws. \<exists>m. e = ConsoleWarn m"
    by blast
  from warnings_filtered [OF ws] show ?thesis by (simp add: consistent_def b)
qed

section \<open>Steps of the process\<close>

lemma step_exited: "exitCode p \<noteq> None \<Longrightarrow> step cfg x p = None"
  by (simp add: step_def)

lemma handleGet_no_help:
  assumes "\<forall>t \<in> set (drop 2 (argv cfg)). \<not> isHelpFlag t"
  shows "\<exists>ws q. handleGet cfg s =
             (ws @ [ResSend (renderPage q (cachedJobs s) (cachedErrorMessage s))], Returned ()) \<and>
           (\<forall>e \<in> set ws. \<exists>m. e = ConsoleWarn m) \<and>
           getEffectiveQueryOptions (argv cfg) = (ws, Returned q)"
  using getEffectiveQueryOptions_no_help [OF assms] by (auto simp: handleGet_def)

lemma step_GetRequest:
  assumes "\<forall>t \<in> set (drop 2 (argv cfg)). \<not> isHelpFlag t" and "exitCode p = None"
  shows "\<exists>ws q. step cfg GetRequest p =
             Some (p\<lparr>trace := trace p @ ws @
                       [ResSend (renderPage q (cachedJobs (globals p))
                                   (cachedErrorMessage (globals p)))]\<rparr>) \<and>
           (\<forall>e \<in> set ws. \<exists>m. e = ConsoleWarn m) \<and>
           getEffectiveQueryOptions (argv cfg) = (ws, Returned q)"
proof -
  from handleGet_no_help [OF assms(1), of "globals p"] obtain ws q where
    h: "handleGet cfg (globals p) =
          (ws @ [ResSend (renderPage q (cachedJobs (globals p)) (cachedErrorMessage (globals p)))],
           Returned ())"
    and ws: "\<forall>e \<in> set ws. \<exists>m. e = ConsoleWarn m"
    and g: "getEffectiveQueryOptions (argv cfg) = (ws, Returned q)"
    by blast
  from assms(2) h have "step cfg GetRequest p =
      Some (p\<lparr>trace := trace p @ ws @
                [ResSend (renderPage q (cachedJobs (globals p))
                            (cachedErrorMessage (globals p)))]\<rparr>)"
    by (simp add: step_def)
  with ws g show ?thesis by blast
qed

lemma step_GetRequest_globals:
  assumes "step cfg GetRequest p = Some p'"
  shows "globals p' = globals p \<and> fetchPending p' = fetchPending p \<and>
         openPending p' = openPending p"
  using assms
  by (cases "handleGet cfg (globals p)"; cases "snd (handleGet cfg (globals p))")
     (auto simp: step_def split: if_splits)

lemma step_OpenSettles:
  "step cfg (OpenSettles st) p = Some p' \<longleftrightarrow>
     exitCode p = None \<and> openPending p \<and>
     p' = p\<lparr>openPending := False, trace := trace p @ settleOpen cfg st\<rparr>"
  by (auto simp: step_def)

lemma settleFetch_JobArray:
  "settleFetch cfg (Resolved (JobArray jobs)) s =
     (s\<lparr>cachedJobs := jobs, isInitialFetchComplete := True\<rparr>,
      [ConsoleLog (''Initial fetch completed. Fetched '' @ toString (length jobs) @ '' jobs.''),
       OpenBrowser (baseUrl cfg)],
      Returns)"
  by (simp add: settleFetch_def thenHandler_def finallyHandler_def)

lemma settleFetch_NotArray:
  "settleFetch cfg (Resolved (NotArray other)) s =
     (s\<lparr>cachedErrorMessage :=
          ''No jobs found or unexpected API response format during initial fetch.'',
        isInitialFetchComplete := True\<rparr>,
      [ConsoleWarnResponse ''Initial fetch: API response was not an array or was empty:'' other,
       OpenBrowser (baseUrl cfg)],
      Returns)"
  by (simp add: settleFetch_def thenHandler_def finallyHandler_def)

lemma settleFetch_ErrorObject:
  "settleFetch cfg (Rejected (ErrorObject e)) s =
     (s\<lparr>cachedErrorMessage :=
          ''Failed to fetch jobs during initial startup: '' @
          orElseOpt (message e) ''Unknown error'' @
          ''. Please check your connection or API limits.'' @
          (if (case response e of None \<Rightarrow> False | Some r \<Rightarrow> status r = Some 429)
           then rateLimitHint else []),
        isInitialFetchComplete := True\<rparr>,
      [ConsoleErrorFetch ''Initial fetch: Error fetching jobs:'' (ErrorObject e),
       OpenBrowser (baseUrl cfg)],
      Returns)"
  by (simp add: settleFetch_def catchHandler_def finallyHandler_def Let_def)

lemma settleFetch_NullValue:
  "settleFetch cfg (Rejected NullValue) s =
     (s\<lparr>isInitialFetchComplete := True\<rparr>,
      [ConsoleErrorFetch ''Initial fetch: Error fetching jobs:'' NullValue,
       OpenBrowser (baseUrl cfg)],
      ThrowsTypeError)"
  by (simp add: settleFetch_def catchHandler_def finallyHandler_def Let_def)

lemma settleFetch_UndefinedValue:
  "settleFetch cfg (Rejected UndefinedValue) s =
     (s\<lparr>isInitialFetchComplete := True\<rparr>,
      [ConsoleErrorFetch ''Initial fetch: Error fetching jobs:'' UndefinedValue,
       OpenBrowser (baseUrl cfg)],
      ThrowsTypeError)"
  by (simp add: settleFetch_def catchHandler_def finallyHandler_def Let_def)

lemmas settleFetch_cases =
  settleFetch_JobArray settleFetch_NotArray settleFetch_ErrorObject settleFetch_NullValue
  settleFetch_UndefinedValue

lemma Settlement_cases:
  obtains jobs where "st = Resolved (JobArray jobs)"
  | other where "st = Resolved (NotArray other)"
  | e where "st = Rejected (ErrorObject e)"
  | "st = Rejected NullValue"
  | "st = Rejected UndefinedValue"
proof (cases st)
  case (Resolved r)
  then show ?thesis using that(1,2) by (cases r) simp_all
next
  case (Rejected v)
  then show ?thesis using that(3,4,5) by (cases v) simp_all
qed

lemma settleFetch_events:
  "filter isOpenBrowser (fst (snd (settleFetch cfg st s))) = [OpenBrowser (baseUrl cfg)] \<and>
   filter isLinkedInQuery (fst (snd (settleFetch cfg st s))) = []"
  by (cases st rule: Settlement_cases) (simp_all add: settleFetch_cases)

lemma settleFetch_globals:
  "isInitialFetchComplete (fst (settleFetch cfg st s)) \<and>
   (cachedJobs s = [] \<and> cachedErrorMessage s = [] \<longrightarrow>
      cachedJobs (fst (settleFetch cfg st s)) = [] \<or>
      cachedErrorMessage (fst (settleFetch cfg st s)) = [])"
  by (cases st rule: Settlement_cases) (simp_all add: settleFetch_cases)

lemma settleFetch_both_empty:
  "cachedJobs (fst (settleFetch cfg st initialState)) = [] \<and>
   cachedErrorMessage (fst (settleFetch cfg st initialState)) = [] \<longleftrightarrow>
   st = Resolved (JobArray []) \<or> st = Rejected NullValue \<or> st = Rejected UndefinedValue"
  by (cases st rule: Settlement_cases) (simp_all add: settleFetch_cases initialState_def)

lemma settleFetch_returns:
  "snd (snd (settleFetch cfg st s)) = Returns \<longleftrightarrow>
   st \<noteq> Rejected NullValue \<and> st \<noteq> Rejected UndefinedValue"
  by (cases st rule: Settlement_cases) (simp_all add: settleFetch_cases)

lemma step_FetchSettles_returns:
  assumes "exitCode p = None" and "fetchPending p"
    and "st \<noteq> Rejected NullValue" and "st \<noteq> Rejected UndefinedValue"
  shows "step cfg (FetchSettles st) p =
     Some (p\<lparr>globals := fst (settleFetch cfg st (globals p)), fetchPending := False,
             openPending := True,
             trace := trace p @ fst (snd (settleFetch cfg st (globals p)))\<rparr>)"
proof -
  from assms(3,4) have "snd (snd (settleFetch cfg st (globals p))) = Returns"
    by (simp add: settleFetch_returns)
  then obtain s out where "settleFetch cfg st (globals p) = (s, out, Returns)"
    by (cases "settleFetch cfg st (globals p)") auto
  with assms(1,2) show ?thesis by (simp add: step_def)
qed

lemma step_FetchSettles:
  assumes "step cfg (FetchSettles st) p = Some p'"
  shows "exitCode p = None \<and> fetchPending p \<and> \<not> fetchPending p' \<and>
         globals p' = fst (settleFetch cfg st (globals p)) \<and>
         (openPending p' \<longrightarrow> exitCode p' = None) \<and>
         filter isOpenBrowser (trace p') =
           filter isOpenBrowser (trace p) @ [OpenBrowser (baseUrl cfg)] \<and>
         filter isLinkedInQuery (trace p') = filter isLinkedInQuery (trace p)"
proof -
  obtain s out ending where sf: "settleFetch cfg st (globals p) = (s, out, ending)"
    by (cases "settleFetch cfg st (globals p)") auto
  from settleFetch_events [of cfg st "globals p"] sf
  have out: "filter isOpenBrowser out = [OpenBrowser (baseUrl cfg)]"
    "filter isLinkedInQuery out = []"
    by simp_all
  from assms have alive: "exitCode p = None" and pending: "fetchPending p"
    by (auto simp: step_def split: if_splits)
  show ?thesis
  proof (cases ending)
    case Returns
    with assms sf alive pending out show ?thesis by (auto simp: step_def)
  next
    case ThrowsTypeError
    with assms sf alive pending out show ?thesis
      by (cases "unhandledRejections cfg") (auto simp: step_def)
  qed
qed

lemma settleOpen_events:
  "filter isOpenBrowser (settleOpen cfg st) = [] \<and> filter isLinkedInQuery (settleOpen cfg st) = []"
  by (cases st) (simp_all add: settleOpen_def)

lemma step_consistent:
  assumes nohelp: "\<forall>t \<in> set (drop 2 (argv cfg)). \<not> isHelpFlag t"
    and p: "consistent cfg p"
    and s: "step cfg x p = Some p'"
  shows "consistent cfg p'"
proof (cases x)
  case (FetchSettles st)
  with s have s': "step cfg (FetchSettles st) p = Some p'" by simp
  note after = step_FetchSettles [OF s']
  from after have pending: "fetchPending p" by simp
  with p have init: "globals p = initialState" and none: "filter isOpenBrowser (trace p) = []"
    by (simp_all add: consistent_def)
  from init have "cachedJobs (globals p) = [] \<and> cachedErrorMessage (globals p) = []"
    by (simp add: initialState_def)
  with settleFetch_globals [of cfg st "globals p"] after p none
  show ?thesis by (simp add: consistent_def)
next
  case (OpenSettles st)
  with s have "openPending p" and "exitCode p = None"
    and p': "p' = p\<lparr>openPending := False, trace := trace p @ settleOpen cfg st\<rparr>"
    by (simp_all add: step_OpenSettles)
  with p settleOpen_events [of cfg st] show ?thesis
    by (auto simp: consistent_def split: if_splits)
next
  case GetRequest
  from s have "exitCode p = None" by (cases "exitCode p") (simp_all add: step_def)
  from step_GetRequest [OF nohelp this] s GetRequest obtain ws q where
    p': "p' = p\<lparr>trace := trace p @ ws @
                     [ResSend (renderPage q (cachedJobs (globals p))
                                 (cachedErrorMessage (globals p)))]\<rparr>"
    and ws: "\<forall>e \<in> set ws. \<exists>m. e = ConsoleWarn m"
    by auto
  from p warnings_filtered [OF ws] show ?thesis
    by (simp add: consistent_def p')
qed

lemma reaches_consistent:
  assumes "reaches cfg p q"
    and "\<forall>t \<in> set (drop 2 (argv cfg)). \<not> isHelpFlag t"
    and "consistent cfg p"
  shows "consistent cfg q"
  using assms
  by (induction rule: reaches.induct) (auto intro: step_consistent)

lemma reachable_help:
  assumes "reachable cfg p" and "\<exists>t \<in> set (drop 2 (argv cfg)). isHelpFlag t"
  shows "p = boot cfg"
proof -
  from assms(2) have dead: "exitCode (boot cfg) \<noteq> None" by (simp add: boot_alive)
  have "reaches cfg b p \<Longrightarrow> b = boot cfg \<Longrightarrow> p = boot cfg" for b
  proof (induction rule: reaches.induct)
    case (reaches_refl p)
    then show ?case by simp
  next
    case (reaches_step p q x r)
    with dead show ?case by (simp add: step_exited)
  qed
  with assms(1) show ?thesis by (simp add: reachable_def)
qed

lemma reachable_no_help:
  assumes "reachable cfg p" and "\<forall>t \<in> set (drop 2 (argv cfg)). \<not> isHelpFlag t"
  shows "consistent cfg p"
  using assms reaches_consistent [OF _ assms(2) boot_consistent [OF assms(2)]]
  by (simp add: reachable_def)

lemma step_settled:
  assumes "\<not> fetchPending p" and "step cfg x p = Some p'"
  shows "globals p' = globals p \<and> \<not> fetchPending p'"
proof (cases x)
  case (FetchSettles st)
  with assms step_FetchSettles [of cfg st p p'] show ?thesis by simp
next
  case (OpenSettles st)
  with assms show ?thesis by (auto simp: step_OpenSettles)
next
  case GetRequest
  with assms step_GetRequest_globals [of cfg p p'] show ?thesis by simp
qed

lemma reaches_settled:
  assumes "reaches cfg p q" and "\<not> fetchPending p"
  shows "globals q = globals p \<and> \<not> fetchPending q"
  using assms
  by (induction rule: reaches.induct) (auto dest: step_settled)

lemma reaches_trans:
  assumes "reaches cfg q r" and "reaches cfg p q"
  shows "reaches cfg p r"
  using assms
  by (induction rule: reaches.induct) (auto intro: reaches.intros)

lemma run_reaches: "run cfg xs p = Some q \<Longrightarrow> reaches cfg p q"
proof (induction xs arbitrary: p)
  case Nil
  then show ?case by (simp add: reaches_refl)
next
  case (Cons x xs)
  then obtain p' where s: "step cfg x p = Some p'" and r: "run cfg xs p' = Some q"
    by (auto split: option.splits)
  from s have "reaches cfg p p'" by (rule reaches_step [OF reaches_refl])
  with Cons.IH [OF r] show ?case by (rule reaches_trans)
qed

lemma reachable_pending:
  assumes "reachable cfg p" and "fetchPending p"
  shows "exitCode p = None \<and> globals p = initialState \<and> \<not> openPending p"
proof (cases "\<exists>t \<in> set (drop 2 (argv cfg)). isHelpFlag t")
  case True
  from reachable_help [OF assms(1) True] boot_help [OF True] assms(2)
  show ?thesis by auto
next
  case False
  then have "\<forall>t \<in> set (drop 2 (argv cfg)). \<not> isHelpFlag t" by simp
  from reachable_no_help [OF assms(1) this] assms(2) show ?thesis
    by (simp add: consistent_def)
qed

section \<open>The help flag\<close>

text \<open>
  Claim C3. When an argument after the first two is \<open>--help\<close> or \<open>-h\<close>, at any position,
  the start of the process prints the usage text as its last output and ends with exit
  status 0; the collaborator has not been called and no promise is pending, and nothing
  happens afterwards, so no fetch ever occurs. The arguments after the first help flag are
  not looked at: the start is the same as with the arguments cut after that flag.
\<close>

theorem help_flag_exits_before_fetch:
  assumes "\<exists>tok \<in> set (drop 2 (argv cfg)). isHelpFlag tok"
  shows "exitCode (boot cfg) = Some 0 \<and>
         last (trace (boot cfg)) = ConsoleLog usageText \<and>
         filter isLinkedInQuery (trace (boot cfg)) = [] \<and>
         \<not> fetchPending (boot cfg) \<and>
         (\<forall>p. reachable cfg p \<longrightarrow> p = boot cfg) \<and>
         boot cfg =
           boot (cfg\<lparr>argv := take 2 (argv cfg) @
                               takeWhile (\<lambda>t. \<not> isHelpFlag t) (drop 2 (argv cfg)) @
                               [''--help'']\<rparr>)"
proof -
  from boot_help [OF assms] obtain ws where
    b: "boot cfg =
          \<lparr>globals = initialState, fetchPending = False, openPending = False,
           exitCode = Some 0,
           trace = ConsoleLog (''Server running on '' @ baseUrl cfg) # ws @ [ConsoleLog usageText]\<rparr>"
    and ws: "\<forall>e \<in> set ws. \<exists>m. e = ConsoleWarn m"
    by blast
  from warnings_filtered [OF ws] have
    start: "exitCode (boot cfg) = Some 0 \<and> last (trace (boot cfg)) = ConsoleLog usageText \<and>
      filter isLinkedInQuery (trace (boot cfg)) = [] \<and> \<not> fetchPending (boot cfg)"
    by (simp add: b)
  have only: "\<forall>p. reachable cfg p \<longrightarrow> p = boot cfg"
    using reachable_help [OF _ assms] by blast
  let ?cut = "take 2 (argv cfg) @ takeWhile (\<lambda>t. \<not> isHelpFlag t) (drop 2 (argv cfg)) @
              [''--help'']"
  have "getEffectiveQueryOptions ?cut = getEffectiveQueryOptions (argv cfg)"
    using getEffectiveQueryOptions_cut [OF assms] by (rule sym)
  then have "boot (cfg\<lparr>argv := ?cut\<rparr>) = boot cfg"
    by (simp add: boot_def baseUrl_def PORT_def)
  with start only show ?thesis by simp
qed

theorem help_flag_exits_before_fetch_witness:
  "isHelpFlag ''-h'' \<and>
   exitCode (boot \<lparr>argv = [''node'', ''dist/server.js'', ''--keyword=React'', ''-h'', ''--limit=5''],
                   envPORT = None, unhandledRejections = Throw\<rparr>) = Some 0 \<and>
   last (trace (boot \<lparr>argv = [''node'', ''dist/server.js'', ''--keyword=React'', ''-h'', ''--limit=5''],
                      envPORT = None, unhandledRejections = Throw\<rparr>)) = ConsoleLog usageText \<and>
   filter isLinkedInQuery
     (trace (boot \<lparr>argv = [''node'', ''dist/server.js'', ''--keyword=React'', ''-h'', ''--limit=5''],
                   envPORT = None, unhandledRejections = Throw\<rparr>)) = [] \<and>
   boot \<lparr>argv = [''node'', ''dist/server.js'', ''--keyword=React'', ''-h'', ''--limit=5''],
         envPORT = None, unhandledRejections = Throw\<rparr> =
   boot \<lparr>argv = [''node'', ''dist/server.js'', ''--keyword=React'', ''--help''], envPORT = None, unhandledRejections = Throw\<rparr>"
proof -
  let ?cfg = "\<lparr>argv = [''node'', ''dist/server.js'', ''--keyword=React'', ''-h'', ''--limit=5''],
              envPORT = None, unhandledRejections = Throw\<rparr>"
  have flag: "isHelpFlag ''-h''" by (simp add: isHelpFlag_def)
  then have "\<exists>tok \<in> set (drop 2 (argv ?cfg)). isHelpFlag tok" by simp
  from help_flag_exits_before_fetch [OF this]
  have exit: "exitCode (boot ?cfg) = Some 0"
    and usage: "last (trace (boot ?cfg)) = ConsoleLog usageText"
    and nofetch: "filter isLinkedInQuery (trace (boot ?cfg)) = []"
    and cut: "boot ?cfg =
        boot (?cfg\<lparr>argv := take 2 (argv ?cfg) @
                             takeWhile (\<lambda>t. \<not> isHelpFlag t) (drop 2 (argv ?cfg)) @
                             [''--help'']\<rparr>)"
    by blast+
  have "?cfg\<lparr>argv := take 2 (argv ?cfg) @
                        takeWhile (\<lambda>t. \<not> isHelpFlag t) (drop 2 (argv ?cfg)) @
                        [''--help'']\<rparr> =
      \<lparr>argv = [''node'', ''dist/server.js'', ''--keyword=React'', ''--help''], envPORT = None, unhandledRejections = Throw\<rparr>"
    by (simp add: isHelpFlag_def)
  with cut have "boot ?cfg =
      boot \<lparr>argv = [''node'', ''dist/server.js'', ''--keyword=React'', ''--help''],
            envPORT = None, unhandledRejections = Throw\<rparr>"
    by (simp only:)
  with flag exit usage nofetch show ?thesis by (intro conjI)
qed

section \<open>The outcome of the fetch\<close>

lemma boot_plain:
  "boot \<lparr>argv = [''node'', ''dist/server.js''], envPORT = None, unhandledRejections = Throw\<rparr> =
     \<lparr>globals = initialState, fetchPending = True, openPending = False, exitCode = None,
      trace = [ConsoleLog ''Server running on http://localhost:3000'',
               ConsoleLog ''Performing initial job search...'',
               LinkedInQuery hardcodedDefaultOptions]\<rparr>"
  by (simp add: boot_def baseUrl_def PORT_def orElseOpt_def getEffectiveQueryOptions_def
        parseCommandLineArgs_def spread_empty)

lemma reachable_boot: "reachable cfg (boot cfg)"
  by (simp add: reachable_def reaches_refl)

text \<open>
  Claim C4. While the fetch is pending, a collaborator response that is a sequence of job
  records settles the fetch with \<open>cachedJobs\<close> equal to that sequence: the same records, in
  the same order, duplicates included. The cached error message is empty, and both stay so
  in every later state.
\<close>

theorem fulfilled_outcome_stored_verbatim:
  assumes "reachable cfg p" and "fetchPending p"
  shows "\<exists>p'. step cfg (FetchSettles (Resolved (JobArray jobs))) p = Some p' \<and>
           cachedJobs (globals p') = jobs \<and>
           length (cachedJobs (globals p')) = length jobs \<and>
           cachedErrorMessage (globals p') = [] \<and>
           (\<forall>q. reaches cfg p' q \<longrightarrow>
                cachedJobs (globals q) = jobs \<and> cachedErrorMessage (globals q) = [])"
proof -
  let ?st = "Resolved (JobArray jobs)"
  let ?p' = "p\<lparr>globals := fst (settleFetch cfg ?st (globals p)), fetchPending := False,
               openPending := True, trace := trace p @ fst (snd (settleFetch cfg ?st (globals p)))\<rparr>"
  from reachable_pending [OF assms] have alive: "exitCode p = None"
    and init: "globals p = initialState"
    by simp_all
  from alive assms(2) have s: "step cfg (FetchSettles ?st) p = Some ?p'"
    by (simp add: step_FetchSettles_returns)
  have g: "cachedJobs (globals ?p') = jobs \<and> cachedErrorMessage (globals ?p') = []"
    by (simp add: settleFetch_JobArray init initialState_def)
  have "\<not> fetchPending ?p'" by simp
  then have "\<forall>q. reaches cfg ?p' q \<longrightarrow> globals q = globals ?p'"
    using reaches_settled [of cfg ?p'] by blast
  with g have "\<forall>q. reaches cfg ?p' q \<longrightarrow>
      cachedJobs (globals q) = jobs \<and> cachedErrorMessage (globals q) = []"
    by metis
  with s g show ?thesis by (intro exI [of _ ?p']) simp
qed

theorem fulfilled_outcome_stored_verbatim_witness:
  "fetchPending (boot \<lparr>argv = [''node'', ''dist/server.js''], envPORT = None, unhandledRejections = Throw\<rparr>) \<and>
   (\<exists>p'. step \<lparr>argv = [''node'', ''dist/server.js''], envPORT = None, unhandledRejections = Throw\<rparr>
             (FetchSettles (Resolved (JobArray
                [\<lparr>position = ''Engineer'', company = ''Acme'', companyLogo = None,
                  Job.location = ''London'', date = ''2025-05-01'', agoTime = ''2 days ago'',
                  Job.salary = None, jobUrl = ''https://example.org/1''\<rparr>,
                 \<lparr>position = ''Designer'', company = '''', companyLogo = None,
                  Job.location = ''Leeds'', date = ''2025-05-02'', agoTime = ''1 day ago'',
                  Job.salary = Some ''50000'', jobUrl = ''https://example.org/2''\<rparr>,
                 \<lparr>position = ''Engineer'', company = ''Acme'', companyLogo = None,
                  Job.location = ''London'', date = ''2025-05-01'', agoTime = ''2 days ago'',
                  Job.salary = None, jobUrl = ''https://example.org/1''\<rparr>])))
             (boot \<lparr>argv = [''node'', ''dist/server.js''], envPORT = None, unhandledRejections = Throw\<rparr>) = Some p' \<and>
         cachedJobs (globals p') =
           [\<lparr>position = ''Engineer'', company = ''Acme'', companyLogo = None,
             Job.location = ''London'', date = ''2025-05-01'', agoTime = ''2 days ago'',
             Job.salary = None, jobUrl = ''https://example.org/1''\<rparr>,
            \<lparr>position = ''Designer'', company = '''', companyLogo = None,
             Job.location = ''Leeds'', date = ''2025-05-02'', agoTime = ''1 day ago'',
             Job.salary = Some ''50000'', jobUrl = ''https://example.org/2''\<rparr>,
            \<lparr>position = ''Engineer'', company = ''Acme'', companyLogo = None,
             Job.location = ''London'', date = ''2025-05-01'', agoTime = ''2 days ago'',
             Job.salary = None, jobUrl = ''https://example.org/1''\<rparr>] \<and>
         length (cachedJobs (globals p')) = 3 \<and>
         cachedErrorMessage (globals p') = [])"
proof -
  let ?cfg = "\<lparr>argv = [''node'', ''dist/server.js''], envPORT = None, unhandledRejections = Throw\<rparr>"
  have pending: "fetchPending (boot ?cfg)" by (simp add: boot_plain)
  from fulfilled_outcome_stored_verbatim [OF reachable_boot pending] pending
  show ?thesis by fastforce
qed

text \<open>
  Claim C5. While the fetch is pending, a collaborator response that is not an array
  settles the fetch with the fixed message, which contains \<open>No jobs found\<close>, and
  \<open>cachedJobs\<close> is still the empty sequence.
\<close>

theorem malformed_response_is_failed_outcome:
  assumes "reachable cfg p" and "fetchPending p"
  shows "\<exists>p'. step cfg (FetchSettles (Resolved (NotArray other))) p = Some p' \<and>
           cachedErrorMessage (globals p') =
             ''No jobs found or unexpected API response format during initial fetch.'' \<and>
           sublist ''No jobs found'' (cachedErrorMessage (globals p')) \<and>
           cachedJobs (globals p') = []"
proof -
  let ?st = "Resolved (NotArray other)"
  let ?p' = "p\<lparr>globals := fst (settleFetch cfg ?st (globals p)), fetchPending := False,
               openPending := True, trace := trace p @ fst (snd (settleFetch cfg ?st (globals p)))\<rparr>"
  from reachable_pending [OF assms] have alive: "exitCode p = None"
    and init: "globals p = initialState"
    by simp_all
  from alive assms(2) have s: "step cfg (FetchSettles ?st) p = Some ?p'"
    by (simp add: step_FetchSettles_returns)
  have m: "cachedErrorMessage (globals ?p') =
      ''No jobs found or unexpected API response format during initial fetch.''"
    and j: "cachedJobs (globals ?p') = []"
    by (simp_all add: settleFetch_NotArray init initialState_def)
  have "prefix ''No jobs found''
      ''No jobs found or unexpected API response format during initial fetch.''"
    by simp
  then have "sublist ''No jobs found'' (cachedErrorMessage (globals ?p'))"
    unfolding m by (rule prefix_imp_sublist)
  with s m j show ?thesis by (intro exI [of _ ?p']) simp
qed

theorem malformed_response_is_failed_outcome_witness:
  "fetchPending (boot \<lparr>argv = [''node'', ''dist/server.js''], envPORT = None, unhandledRejections = Throw\<rparr>) \<and>
   (\<exists>p'. step \<lparr>argv = [''node'', ''dist/server.js''], envPORT = None, unhandledRejections = Throw\<rparr>
             (FetchSettles (Resolved (NotArray JsUndefined)))
             (boot \<lparr>argv = [''node'', ''dist/server.js''], envPORT = None, unhandledRejections = Throw\<rparr>) = Some p' \<and>
         sublist ''No jobs found'' (cachedErrorMessage (globals p')) \<and>
         cachedJobs (globals p') = []) \<and>
   (\<exists>p'. step \<lparr>argv = [''node'', ''dist/server.js''], envPORT = None, unhandledRejections = Throw\<rparr>
             (FetchSettles (Resolved (NotArray (JsObject [(''error'', ''blocked'')]))))
             (boot \<lparr>argv = [''node'', ''dist/server.js''], envPORT = None, unhandledRejections = Throw\<rparr>) = Some p' \<and>
         sublist ''No jobs found'' (cachedErrorMessage (globals p')) \<and>
         cachedJobs (globals p') = [])"
proof -
  let ?cfg = "\<lparr>argv = [''node'', ''dist/server.js''], envPORT = None, unhandledRejections = Throw\<rparr>"
  have pending: "fetchPending (boot ?cfg)" by (simp add: boot_plain)
  from malformed_response_is_failed_outcome [OF reachable_boot pending, of JsUndefined]
    malformed_response_is_failed_outcome
      [OF reachable_boot pending, of "JsObject [(''error'', ''blocked'')]"]
    pending
  show ?thesis by blast
qed

text \<open>
  Claim C6. While the fetch is pending, a rejection whose error has a message and a
  response with status 429 settles the fetch with an error message that contains the
  message of the error and ends with the rate-limit hint.
\<close>

theorem rate_limit_hint_appended:
  assumes "reachable cfg p" and "fetchPending p"
    and "message e = Some m" and "response e = Some r" and "status r = Some 429"
  shows "\<exists>p'. step cfg (FetchSettles (Rejected (ErrorObject e))) p = Some p' \<and>
           cachedErrorMessage (globals p') =
             ''Failed to fetch jobs during initial startup: '' @ orElse m ''Unknown error'' @
             ''. Please check your connection or API limits.'' @ rateLimitHint \<and>
           sublist m (cachedErrorMessage (globals p')) \<and>
           suffix rateLimitHint (cachedErrorMessage (globals p')) \<and>
           cachedJobs (globals p') = []"
proof -
  let ?st = "Rejected (ErrorObject e)"
  let ?p' = "p\<lparr>globals := fst (settleFetch cfg ?st (globals p)), fetchPending := False,
               openPending := True, trace := trace p @ fst (snd (settleFetch cfg ?st (globals p)))\<rparr>"
  let ?head = "''Failed to fetch jobs during initial startup: ''"
  let ?tail = "''. Please check your connection or API limits.'' @ rateLimitHint"
  from reachable_pending [OF assms(1,2)] have alive: "exitCode p = None"
    and init: "globals p = initialState"
    by simp_all
  from alive assms(2) have s: "step cfg (FetchSettles ?st) p = Some ?p'"
    by (simp add: step_FetchSettles_returns)
  have msg: "cachedErrorMessage (globals ?p') = ?head @ orElse m ''Unknown error'' @ ?tail"
    and j: "cachedJobs (globals ?p') = []"
    using assms(3-5)
    by (simp_all add: settleFetch_ErrorObject orElseOpt_def init initialState_def)
  have "sublist m (?head @ orElse m ''Unknown error'' @ ?tail)"
  proof (cases "m = []")
    case True
    then show ?thesis by simp
  next
    case False
    then have "orElse m ''Unknown error'' = m" by (simp add: orElse_def)
    then show ?thesis by (simp only: sublist_appendI)
  qed
  moreover have "suffix rateLimitHint (?head @ orElse m ''Unknown error'' @ ?tail)"
    by (auto simp: suffix_def)
  ultimately show ?thesis using s msg j by (intro exI [of _ ?p']) simp
qed

theorem rate_limit_hint_appended_witness:
  "fetchPending (boot \<lparr>argv = [''node'', ''dist/server.js''], envPORT = None, unhandledRejections = Throw\<rparr>) \<and>
   (\<exists>p'. step \<lparr>argv = [''node'', ''dist/server.js''], envPORT = None, unhandledRejections = Throw\<rparr>
             (FetchSettles (Rejected (ErrorObject
                \<lparr>message = Some ''Request failed with status code 429'',
                 response = Some \<lparr>status = Some 429\<rparr>\<rparr>)))
             (boot \<lparr>argv = [''node'', ''dist/server.js''], envPORT = None, unhandledRejections = Throw\<rparr>) = Some p' \<and>
         cachedErrorMessage (globals p') =
           ''Failed to fetch jobs during initial startup: Request failed with status code 429. Please check your connection or API limits. You might have hit a rate limit. Please wait and try again.'' \<and>
         sublist ''Request failed with status code 429'' (cachedErrorMessage (globals p')) \<and>
         suffix rateLimitHint (cachedErrorMessage (globals p')))"
proof -
  let ?cfg = "\<lparr>argv = [''node'', ''dist/server.js''], envPORT = None, unhandledRejections = Throw\<rparr>"
  let ?e = "\<lparr>message = Some ''Request failed with status code 429'',
             response = Some \<lparr>status = Some 429\<rparr>\<rparr>"
  have pending: "fetchPending (boot ?cfg)" by (simp add: boot_plain)
  have "message ?e = Some ''Request failed with status code 429''"
    and "response ?e = Some \<lparr>status = Some 429\<rparr>"
    and "status \<lparr>status = Some 429\<rparr> = Some 429"
    by simp_all
  from rate_limit_hint_appended [OF reachable_boot pending this]
  obtain p' where "step ?cfg (FetchSettles (Rejected (ErrorObject ?e))) (boot ?cfg) = Some p'"
    and "cachedErrorMessage (globals p') =
      ''Failed to fetch jobs during initial startup: '' @
      orElse ''Request failed with status code 429'' ''Unknown error'' @
      ''. Please check your connection or API limits.'' @ rateLimitHint"
    and "sublist ''Request failed with status code 429'' (cachedErrorMessage (globals p'))"
    and "suffix rateLimitHint (cachedErrorMessage (globals p'))"
    by blast
  moreover from this(2) have "cachedErrorMessage (globals p') =
      ''Failed to fetch jobs during initial startup: Request failed with status code 429. Please check your connection or API limits. You might have hit a rate limit. Please wait and try again.''"
    by (simp add: orElse_def rateLimitHint_def)
  ultimately show ?thesis using pending by blast
qed

section \<open>The cached state\<close>

lemmas evaluation =
  boot_plain step_def settleFetch_def thenHandler_def catchHandler_def finallyHandler_def
  settleOpen_def handleGet_def getEffectiveQueryOptions_def parseCommandLineArgs_def
  spread_empty initialState_def baseUrl_def PORT_def orElseOpt_def orElse_def Let_def

lemma run_reachable: "run cfg xs (boot cfg) = Some p \<Longrightarrow> reachable cfg p"
  by (simp add: reachable_def run_reaches)

text \<open>
  Claim C7, as stated, fails: it allows both cached values to be empty only before the
  fetch settles. When the collaborator resolves with the empty array, the fetch has
  settled, the flag is set, and both values are empty.
\<close>

theorem empty_array_settles_with_both_empty:
  "reachable \<lparr>argv = [''node'', ''dist/server.js''], envPORT = None, unhandledRejections = Throw\<rparr>
     (the (run \<lparr>argv = [''node'', ''dist/server.js''], envPORT = None, unhandledRejections = Throw\<rparr>
             [FetchSettles (Resolved (JobArray []))]
             (boot \<lparr>argv = [''node'', ''dist/server.js''], envPORT = None, unhandledRejections = Throw\<rparr>))) \<and>
   \<not> fetchPending
     (the (run \<lparr>argv = [''node'', ''dist/server.js''], envPORT = None, unhandledRejections = Throw\<rparr>
             [FetchSettles (Resolved (JobArray []))]
             (boot \<lparr>argv = [''node'', ''dist/server.js''], envPORT = None, unhandledRejections = Throw\<rparr>))) \<and>
   isInitialFetchComplete (globals
     (the (run \<lparr>argv = [''node'', ''dist/server.js''], envPORT = None, unhandledRejections = Throw\<rparr>
             [FetchSettles (Resolved (JobArray []))]
             (boot \<lparr>argv = [''node'', ''dist/server.js''], envPORT = None, unhandledRejections = Throw\<rparr>)))) \<and>
   cachedJobs (globals
     (the (run \<lparr>argv = [''node'', ''dist/server.js''], envPORT = None, unhandledRejections = Throw\<rparr>
             [FetchSettles (Resolved (JobArray []))]
             (boot \<lparr>argv = [''node'', ''dist/server.js''], envPORT = None, unhandledRejections = Throw\<rparr>)))) = [] \<and>
   cachedErrorMessage (globals
     (the (run \<lparr>argv = [''node'', ''dist/server.js''], envPORT = None, unhandledRejections = Throw\<rparr>
             [FetchSettles (Resolved (JobArray []))]
             (boot \<lparr>argv = [''node'', ''dist/server.js''], envPORT = None, unhandledRejections = Throw\<rparr>)))) = []"
proof -
  let ?cfg = "\<lparr>argv = [''node'', ''dist/server.js''], envPORT = None, unhandledRejections = Throw\<rparr>"
  let ?run = "run ?cfg [FetchSettles (Resolved (JobArray []))] (boot ?cfg)"
  obtain p where p: "?run = Some p" by (simp add: evaluation)
  from p have "reachable ?cfg p" by (rule run_reachable)
  moreover from p have "\<not> fetchPending p \<and> isInitialFetchComplete (globals p) \<and>
      cachedJobs (globals p) = [] \<and> cachedErrorMessage (globals p) = []"
    by (auto simp: evaluation)
  ultimately show ?thesis unfolding p option.sel by (intro conjI) simp_all
qed

text \<open>
  Claim C7, amended. In every reachable state at most one of \<open>cachedJobs\<close> and
  \<open>cachedErrorMessage\<close> is non-empty. Both are empty as long as the fetch is pending. When
  the fetch settles with a resolved value or with a rejection that carries an error object,
  both are empty afterwards exactly when the collaborator resolved with the empty array.
  Once the fetch has settled, no later state differs in \<open>cachedJobs\<close>,
  \<open>cachedErrorMessage\<close> or \<open>isInitialFetchComplete\<close>.
\<close>

theorem cache_exclusive_and_written_once:
  assumes "reachable cfg p"
  shows "(cachedJobs (globals p) = [] \<or> cachedErrorMessage (globals p) = []) \<and>
         (fetchPending p \<longrightarrow>
            cachedJobs (globals p) = [] \<and> cachedErrorMessage (globals p) = []) \<and>
         (\<forall>st p'. step cfg (FetchSettles st) p = Some p' \<longrightarrow>
            st \<noteq> Rejected NullValue \<longrightarrow> st \<noteq> Rejected UndefinedValue \<longrightarrow>
            (cachedJobs (globals p') = [] \<and> cachedErrorMessage (globals p') = [] \<longleftrightarrow>
             st = Resolved (JobArray []))) \<and>
         (\<forall>q. \<not> fetchPending p \<longrightarrow> reaches cfg p q \<longrightarrow> globals q = globals p)"
proof -
  have exclusive: "cachedJobs (globals p) = [] \<or> cachedErrorMessage (globals p) = []"
  proof (cases "\<exists>t \<in> set (drop 2 (argv cfg)). isHelpFlag t")
    case True
    from reachable_help [OF assms True] boot_help [OF True] show ?thesis
      by (auto simp: initialState_def)
  next
    case False
    then have "\<forall>t \<in> set (drop 2 (argv cfg)). \<not> isHelpFlag t" by simp
    from reachable_no_help [OF assms this] show ?thesis
      by (auto simp: consistent_def initialState_def split: if_splits)
  qed
  have pending: "cachedJobs (globals p) = [] \<and> cachedErrorMessage (globals p) = []"
    if "fetchPending p"
    using reachable_pending [OF assms that] by (simp add: initialState_def)
  have settle: "cachedJobs (globals p') = [] \<and> cachedErrorMessage (globals p') = [] \<longleftrightarrow>
      st = Resolved (JobArray [])"
    if s: "step cfg (FetchSettles st) p = Some p'"
      and object: "st \<noteq> Rejected NullValue" "st \<noteq> Rejected UndefinedValue" for st p'
  proof -
    from step_FetchSettles [OF s] have f: "fetchPending p"
      and p': "globals p' = fst (settleFetch cfg st (globals p))"
      by simp_all
    from reachable_pending [OF assms f] have "globals p = initialState" by simp
    with p' object show ?thesis by (simp add: settleFetch_both_empty)
  qed
  have stable: "globals q = globals p" if "\<not> fetchPending p" "reaches cfg p q" for q
    using reaches_settled [OF that(2,1)] by simp
  from exclusive pending settle stable show ?thesis by blast
qed

theorem cache_exclusive_and_written_once_witness:
  "fetchPending (boot \<lparr>argv = [''node'', ''dist/server.js''], envPORT = None, unhandledRejections = Throw\<rparr>) \<and>
   cachedJobs (globals (boot \<lparr>argv = [''node'', ''dist/server.js''], envPORT = None, unhandledRejections = Throw\<rparr>)) = [] \<and>
   cachedErrorMessage (globals (boot \<lparr>argv = [''node'', ''dist/server.js''], envPORT = None, unhandledRejections = Throw\<rparr>)) = [] \<and>
   (\<exists>p q. step \<lparr>argv = [''node'', ''dist/server.js''], envPORT = None, unhandledRejections = Throw\<rparr>
               (FetchSettles (Resolved (NotArray JsNull)))
               (boot \<lparr>argv = [''node'', ''dist/server.js''], envPORT = None, unhandledRejections = Throw\<rparr>) = Some p \<and>
          run \<lparr>argv = [''node'', ''dist/server.js''], envPORT = None, unhandledRejections = Throw\<rparr>
              [GetRequest, OpenSettles OpenResolved, GetRequest] p = Some q \<and>
          \<not> fetchPending p \<and>
          cachedJobs (globals p) = [] \<and> cachedErrorMessage (globals p) \<noteq> [] \<and>
          globals q = globals p)"
proof -
  let ?cfg = "\<lparr>argv = [''node'', ''dist/server.js''], envPORT = None, unhandledRejections = Throw\<rparr>"
  note boot = cache_exclusive_and_written_once [OF reachable_boot, of ?cfg]
  have pending: "fetchPending (boot ?cfg)" by (simp add: boot_plain)
  with boot have empty: "cachedJobs (globals (boot ?cfg)) = [] \<and>
      cachedErrorMessage (globals (boot ?cfg)) = []"
    by blast
  obtain p where p: "step ?cfg (FetchSettles (Resolved (NotArray JsNull))) (boot ?cfg) = Some p"
    by (simp add: evaluation)
  then have settled: "\<not> fetchPending p" using step_FetchSettles [of ?cfg _ "boot ?cfg" p] by simp
  from p have "run ?cfg [FetchSettles (Resolved (NotArray JsNull))] (boot ?cfg) = Some p"
    by simp
  then have reach: "reachable ?cfg p" by (rule run_reachable)
  note after = cache_exclusive_and_written_once [OF reach]
  from boot have "\<forall>st p'. step ?cfg (FetchSettles st) (boot ?cfg) = Some p' \<longrightarrow>
      st \<noteq> Rejected NullValue \<longrightarrow> st \<noteq> Rejected UndefinedValue \<longrightarrow>
      (cachedJobs (globals p') = [] \<and> cachedErrorMessage (globals p') = [] \<longleftrightarrow>
       st = Resolved (JobArray []))"
    by blast
  from this [rule_format, OF p]
  have "\<not> (cachedJobs (globals p) = [] \<and> cachedErrorMessage (globals p) = [])"
    by simp
  moreover from p have "cachedJobs (globals p) = []" by (auto simp: evaluation)
  ultimately have filled: "cachedJobs (globals p) = [] \<and> cachedErrorMessage (globals p) \<noteq> []"
    by blast
  obtain q where q: "run ?cfg [GetRequest, OpenSettles OpenResolved, GetRequest] p = Some q"
    using p by (auto simp: evaluation)
  then have "reaches ?cfg p q" by (rule run_reaches)
  with after settled have "globals q = globals p" by blast
  with pending empty p q settled filled show ?thesis by blast
qed

text \<open>
  A rejection with \<open>null\<close> or \<open>undefined\<close> settles the fetch too: the \<open>.catch\<close> callback
  throws before it assigns a message, and the \<open>.finally\<close> callback still sets the flag and
  calls \<open>open\<close>. Both cached values are empty afterwards. The runtime reports the
  unhandled rejection, and in the mode \<open>throw\<close> the process ends with exit status 1.
\<close>

lemma rejection_without_error_object:
  assumes "reachable cfg p" and "fetchPending p" and "v = NullValue \<or> v = UndefinedValue"
  shows "\<exists>p'. step cfg (FetchSettles (Rejected v)) p = Some p' \<and>
           cachedJobs (globals p') = [] \<and> cachedErrorMessage (globals p') = [] \<and>
           isInitialFetchComplete (globals p') \<and> \<not> fetchPending p' \<and>
           OpenBrowser (baseUrl cfg) \<in> set (trace p') \<and>
           UnhandledRejection \<in> set (trace p') \<and>
           exitCode p' = (case unhandledRejections cfg of Throw \<Rightarrow> Some 1 | Warn \<Rightarrow> None)"
proof -
  from reachable_pending [OF assms(1,2)] have "exitCode p = None"
    and "globals p = initialState"
    by simp_all
  with assms(2,3) show ?thesis
    by (cases "unhandledRejections cfg")
       (auto simp: step_def settleFetch_NullValue settleFetch_UndefinedValue initialState_def)
qed

section \<open>The browser\<close>

text \<open>
  Claim C8. In every reachable state of a process that has called the collaborator,
  \<open>open\<close> has been called exactly once when the fetch has settled and not at all before,
  and only with the base URL of the server; traces only grow, so this is once for the
  lifetime of the process. When the promise of \<open>open\<close> rejects, the failure is printed
  with \<open>console.error\<close>, the variables and the exit status are untouched, and the next
  \<open>GET /\<close> request is answered with a page.
\<close>

theorem browser_opened_once:
  assumes "reachable cfg p"
  shows "length (filter isOpenBrowser (trace p)) =
           (if filter isLinkedInQuery (trace p) \<noteq> [] \<and> \<not> fetchPending p then 1 else 0) \<and>
         (\<forall>e \<in> set (trace p). isOpenBrowser e \<longrightarrow> e = OpenBrowser (baseUrl cfg)) \<and>
         (openPending p \<longrightarrow>
            (\<forall>err. \<exists>p'. step cfg (OpenSettles (OpenRejected err)) p = Some p' \<and>
               globals p' = globals p \<and> exitCode p' = None \<and>
               trace p' = trace p @ [ConsoleErrorOpen ''Failed to open browser:'' err] \<and>
               (\<exists>p'' page. step cfg GetRequest p' = Some p'' \<and> exitCode p'' = None \<and>
                  last (trace p'') = ResSend page)))"
proof (cases "\<exists>t \<in> set (drop 2 (argv cfg)). isHelpFlag t")
  case True
  from boot_help [OF True] obtain ws where
    b: "boot cfg =
          \<lparr>globals = initialState, fetchPending = False, openPending = False,
           exitCode = Some 0,
           trace = ConsoleLog (''Server running on '' @ baseUrl cfg) # ws @ [ConsoleLog usageText]\<rparr>"
    and ws: "\<forall>e \<in> set ws. \<exists>m. e = ConsoleWarn m"
    by blast
  from reachable_help [OF assms True] have p: "p = boot cfg" .
  from warnings_filtered [OF ws] have "filter isOpenBrowser (trace p) = []"
    and "filter isLinkedInQuery (trace p) = []" and "\<not> openPending p"
    by (simp_all add: p b)
  then show ?thesis by (auto simp: filter_empty_conv)
next
  case False
  then have nohelp: "\<forall>t \<in> set (drop 2 (argv cfg)). \<not> isHelpFlag t" by simp
  from reachable_no_help [OF assms nohelp] have c: "consistent cfg p" .
  from c have count: "length (filter isOpenBrowser (trace p)) =
      (if filter isLinkedInQuery (trace p) \<noteq> [] \<and> \<not> fetchPending p then 1 else 0)"
    by (auto simp: consistent_def split: if_splits)
  from c have calls: "filter isOpenBrowser (trace p) = [] \<or>
      filter isOpenBrowser (trace p) = [OpenBrowser (baseUrl cfg)]"
    by (simp add: consistent_def split: if_splits)
  have "e = OpenBrowser (baseUrl cfg)" if "e \<in> set (trace p)" "isOpenBrowser e" for e
  proof -
    from that have m: "e \<in> set (filter isOpenBrowser (trace p))" by simp
    from calls show ?thesis
    proof
      assume "filter isOpenBrowser (trace p) = []"
      with m have "e \<in> set []" by (simp only:)
      then show ?thesis by simp
    next
      assume "filter isOpenBrowser (trace p) = [OpenBrowser (baseUrl cfg)]"
      with m have "e \<in> set [OpenBrowser (baseUrl cfg)]" by (simp only:)
      then show ?thesis by simp
    qed
  qed
  then have
    url: "\<forall>e \<in> set (trace p). isOpenBrowser e \<longrightarrow> e = OpenBrowser (baseUrl cfg)"
    by blast
  have failure: "\<exists>p'. step cfg (OpenSettles (OpenRejected err)) p = Some p' \<and>
      globals p' = globals p \<and> exitCode p' = None \<and>
      trace p' = trace p @ [ConsoleErrorOpen ''Failed to open browser:'' err] \<and>
      (\<exists>p'' page. step cfg GetRequest p' = Some p'' \<and> exitCode p'' = None \<and>
         last (trace p'') = ResSend page)"
    if waiting: "openPending p" for err
  proof -
    let ?p' = "p\<lparr>openPending := False,
                   trace := trace p @ settleOpen cfg (OpenRejected err)\<rparr>"
    from c waiting have alive: "exitCode p = None" by (simp add: consistent_def)
    from alive waiting have s: "step cfg (OpenSettles (OpenRejected err)) p = Some ?p'"
      by (simp add: step_OpenSettles)
    have alive': "exitCode ?p' = None" using alive by simp
    from step_GetRequest [OF nohelp alive'] obtain ws q where
      g: "step cfg GetRequest ?p' =
            Some (?p'\<lparr>trace := trace ?p' @ ws @
                      [ResSend (renderPage q (cachedJobs (globals ?p'))
                                  (cachedErrorMessage (globals ?p')))]\<rparr>)"
      by blast
    have "\<exists>p'' page. step cfg GetRequest ?p' = Some p'' \<and> exitCode p'' = None \<and>
        last (trace p'') = ResSend page"
      unfolding g using alive by simp
    with s alive show ?thesis
      by (intro exI [of _ ?p']) (simp add: settleOpen_def)
  qed
  from count url failure show ?thesis by blast
qed

theorem browser_opened_once_witness:
  "\<exists>p. run \<lparr>argv = [''node'', ''dist/server.js''], envPORT = None, unhandledRejections = Throw\<rparr>
          [GetRequest, FetchSettles (Rejected (ErrorObject \<lparr>message = None, response = None\<rparr>))]
          (boot \<lparr>argv = [''node'', ''dist/server.js''], envPORT = None, unhandledRejections = Throw\<rparr>) = Some p \<and>
       openPending p \<and> \<not> fetchPending p \<and>
       filter isLinkedInQuery (trace p) \<noteq> [] \<and>
       length (filter isOpenBrowser (trace p)) = 1 \<and>
       (\<exists>p'. step \<lparr>argv = [''node'', ''dist/server.js''], envPORT = None, unhandledRejections = Throw\<rparr>
                 (OpenSettles (OpenRejected ''spawn xdg-open ENOENT'')) p = Some p' \<and>
             globals p' = globals p \<and> exitCode p' = None \<and>
             trace p' =
               trace p @ [ConsoleErrorOpen ''Failed to open browser:'' ''spawn xdg-open ENOENT''] \<and>
             (\<exists>p'' page. step \<lparr>argv = [''node'', ''dist/server.js''], envPORT = None, unhandledRejections = Throw\<rparr>
                             GetRequest p' = Some p'' \<and>
                           exitCode p'' = None \<and> last (trace p'') = ResSend page))"
proof -
  let ?cfg = "\<lparr>argv = [''node'', ''dist/server.js''], envPORT = None, unhandledRejections = Throw\<rparr>"
  obtain p where
    p: "run ?cfg [GetRequest, FetchSettles (Rejected (ErrorObject \<lparr>message = None, response = None\<rparr>))]
          (boot ?cfg) = Some p"
    by (simp add: evaluation)
  then have state: "openPending p \<and> \<not> fetchPending p \<and> filter isLinkedInQuery (trace p) \<noteq> []"
    by (auto simp: evaluation)
  from p have "reachable ?cfg p" by (rule run_reachable)
  from browser_opened_once [OF this] state
  have "length (filter isOpenBrowser (trace p)) = 1"
    and "\<exists>p'. step ?cfg (OpenSettles (OpenRejected ''spawn xdg-open ENOENT'')) p = Some p' \<and>
           globals p' = globals p \<and> exitCode p' = None \<and>
           trace p' =
             trace p @ [ConsoleErrorOpen ''Failed to open browser:'' ''spawn xdg-open ENOENT''] \<and>
           (\<exists>p'' page. step ?cfg GetRequest p' = Some p'' \<and> exitCode p'' = None \<and>
              last (trace p'') = ResSend page)"
    by simp_all
  with p state show ?thesis by blast
qed

section \<open>Requests\<close>

lemma renderPage_rows:
  "renderPage q jobs err = pagePrefix q err @ join '''' (map renderJobRow jobs) @ pageSuffix"
  by (simp add: renderPage_def)

text \<open>
  Claim C9. The handler of \<open>GET /\<close> changes none of \<open>cachedJobs\<close>, \<open>cachedErrorMessage\<close>
  and \<open>isInitialFetchComplete\<close>. Of two requests served after the fetch has settled, the
  second prints and sends exactly what the first did: the same warnings and the same page,
  whose rows are the rows of the cached jobs.
\<close>

theorem requests_are_idempotent_reads:
  "(step cfg GetRequest p = Some p' \<longrightarrow> globals p' = globals p) \<and>
   (reachable cfg p \<and> \<not> fetchPending p \<and> reaches cfg p q \<and>
    step cfg GetRequest p = Some p' \<and> step cfg GetRequest q = Some q' \<longrightarrow>
      globals q' = globals p \<and>
      drop (length (trace q)) (trace q') = drop (length (trace p)) (trace p') \<and>
      (\<exists>ws query.
         drop (length (trace p)) (trace p') =
           ws @ [ResSend (pagePrefix query (cachedErrorMessage (globals p)) @
                          join '''' (map renderJobRow (cachedJobs (globals p))) @
                          pageSuffix)] \<and>
         (\<forall>e \<in> set ws. \<exists>m. e = ConsoleWarn m)))"
proof (rule conjI; rule impI)
  assume "step cfg GetRequest p = Some p'"
  then show "globals p' = globals p" by (simp add: step_GetRequest_globals)
next
  assume a: "reachable cfg p \<and> \<not> fetchPending p \<and> reaches cfg p q \<and>
    step cfg GetRequest p = Some p' \<and> step cfg GetRequest q = Some q'"
  then have reach: "reachable cfg p" and settled: "\<not> fetchPending p"
    and later: "reaches cfg p q"
    and sp: "step cfg GetRequest p = Some p'" and sq: "step cfg GetRequest q = Some q'"
    by simp_all
  from sp have alive: "exitCode p = None" by (cases "exitCode p") (simp_all add: step_def)
  from sq have alive': "exitCode q = None" by (cases "exitCode q") (simp_all add: step_def)
  have nohelp: "\<forall>t \<in> set (drop 2 (argv cfg)). \<not> isHelpFlag t"
  proof (rule ccontr)
    assume "\<not> ?thesis"
    then have flagged: "\<exists>t \<in> set (drop 2 (argv cfg)). isHelpFlag t" by simp
    from reachable_help [OF reach flagged] boot_help [OF flagged] alive
    show False by auto
  qed
  from reaches_settled [OF later settled] have same: "globals q = globals p" by simp
  from step_GetRequest [OF nohelp alive] sp obtain ws query where
    p': "p' = p\<lparr>trace := trace p @ ws @
                     [ResSend (renderPage query (cachedJobs (globals p))
                                 (cachedErrorMessage (globals p)))]\<rparr>"
    and ws: "\<forall>e \<in> set ws. \<exists>m. e = ConsoleWarn m"
    and g: "getEffectiveQueryOptions (argv cfg) = (ws, Returned query)"
    by auto
  from step_GetRequest [OF nohelp alive'] sq g have
    q': "q' = q\<lparr>trace := trace q @ ws @
                     [ResSend (renderPage query (cachedJobs (globals q))
                                 (cachedErrorMessage (globals q)))]\<rparr>"
    by auto
  have new: "drop (length (trace p)) (trace p') =
      ws @ [ResSend (renderPage query (cachedJobs (globals p)) (cachedErrorMessage (globals p)))]"
    by (simp add: p')
  have new': "drop (length (trace q)) (trace q') =
      ws @ [ResSend (renderPage query (cachedJobs (globals p)) (cachedErrorMessage (globals p)))]"
    by (simp add: q' same)
  have "globals q' = globals p" by (simp add: q' same)
  moreover from new new' have
    "drop (length (trace q)) (trace q') = drop (length (trace p)) (trace p')"
    by simp
  moreover from new ws have "\<exists>ws query.
      drop (length (trace p)) (trace p') =
        ws @ [ResSend (pagePrefix query (cachedErrorMessage (globals p)) @
                       join '''' (map renderJobRow (cachedJobs (globals p))) @
                       pageSuffix)] \<and>
      (\<forall>e \<in> set ws. \<exists>m. e = ConsoleWarn m)"
    unfolding renderPage_rows by blast
  ultimately show "globals q' = globals p \<and>
      drop (length (trace q)) (trace q') = drop (length (trace p)) (trace p') \<and>
      (\<exists>ws query.
         drop (length (trace p)) (trace p') =
           ws @ [ResSend (pagePrefix query (cachedErrorMessage (globals p)) @
                          join '''' (map renderJobRow (cachedJobs (globals p))) @
                          pageSuffix)] \<and>
         (\<forall>e \<in> set ws. \<exists>m. e = ConsoleWarn m))"
    by blast
qed

theorem requests_are_idempotent_reads_witness:
  "\<exists>p q p' q'.
     run \<lparr>argv = [''node'', ''dist/server.js''], envPORT = None, unhandledRejections = Throw\<rparr>
       [FetchSettles (Resolved (JobArray
          [\<lparr>position = ''Engineer <C++>'', company = ''Acme'', companyLogo = None,
            Job.location = ''London'', date = ''2025-05-01'', agoTime = ''2 days ago'',
            Job.salary = None, jobUrl = ''https://example.org/1''\<rparr>]))]
       (boot \<lparr>argv = [''node'', ''dist/server.js''], envPORT = None, unhandledRejections = Throw\<rparr>) = Some p \<and>
     run \<lparr>argv = [''node'', ''dist/server.js''], envPORT = None, unhandledRejections = Throw\<rparr>
       [OpenSettles OpenResolved, GetRequest] p = Some q \<and>
     step \<lparr>argv = [''node'', ''dist/server.js''], envPORT = None, unhandledRejections = Throw\<rparr> GetRequest p = Some p' \<and>
     step \<lparr>argv = [''node'', ''dist/server.js''], envPORT = None, unhandledRejections = Throw\<rparr> GetRequest q = Some q' \<and>
     \<not> fetchPending p \<and> globals p' = globals p \<and> globals q' = globals p \<and>
     drop (length (trace q)) (trace q') = drop (length (trace p)) (trace p') \<and>
     drop (length (trace p)) (trace p') =
       [ResSend (renderPage hardcodedDefaultOptions
          [\<lparr>position = ''Engineer <C++>'', company = ''Acme'', companyLogo = None,
            Job.location = ''London'', date = ''2025-05-01'', agoTime = ''2 days ago'',
            Job.salary = None, jobUrl = ''https://example.org/1''\<rparr>] [])]"
proof -
  let ?cfg = "\<lparr>argv = [''node'', ''dist/server.js''], envPORT = None, unhandledRejections = Throw\<rparr>"
  let ?jobs = "[\<lparr>position = ''Engineer <C++>'', company = ''Acme'', companyLogo = None,
                 Job.location = ''London'', date = ''2025-05-01'', agoTime = ''2 days ago'',
                 Job.salary = None, jobUrl = ''https://example.org/1''\<rparr>]"
  obtain p where p: "run ?cfg [FetchSettles (Resolved (JobArray ?jobs))] (boot ?cfg) = Some p"
    by (simp add: evaluation)
  then have settled: "\<not> fetchPending p" and alive: "exitCode p = None"
    and cache: "cachedJobs (globals p) = ?jobs" "cachedErrorMessage (globals p) = []"
    by (auto simp: evaluation)
  from p have reach: "reachable ?cfg p" by (rule run_reachable)
  obtain q where q: "run ?cfg [OpenSettles OpenResolved, GetRequest] p = Some q"
    using p by (auto simp: evaluation)
  then have later: "reaches ?cfg p q" by (rule run_reaches)
  from q have alive': "exitCode q = None" using p by (auto simp: evaluation)
  obtain p' where p': "step ?cfg GetRequest p = Some p'"
    using alive by (simp add: evaluation)
  obtain q' where q': "step ?cfg GetRequest q = Some q'"
    using alive' by (simp add: evaluation)
  from requests_are_idempotent_reads [of ?cfg p p' q q'] reach settled later p' q'
  have "globals p' = globals p" and "globals q' = globals p"
    and "drop (length (trace q)) (trace q') = drop (length (trace p)) (trace p')"
    by blast+
  moreover from p' alive cache have "drop (length (trace p)) (trace p') =
      [ResSend (renderPage hardcodedDefaultOptions ?jobs [])]"
    by (auto simp: evaluation)
  ultimately show ?thesis using p q p' q' settled by blast
qed

end
